theory Spec2Isabelle
  imports Complex_Main "HOL-Library.Sublist" "HOL-Library.Word"
begin

section \<open>Exceptions\<close>

text \<open>
  The C++ sources throw \<^verbatim>\<open>std::runtime_error\<close> (decompression),
  \<^verbatim>\<open>std::invalid_argument\<close> (band lookup, \<^verbatim>\<open>std::stoi\<close>) and
  \<^verbatim>\<open>std::out_of_range\<close> (\<^verbatim>\<open>std::stoi\<close>, \<^verbatim>\<open>std::string::substr\<close>).
  All three derive from \<^verbatim>\<open>std::exception\<close>. A function that may throw returns
  \<open>error + 'a\<close>, with \<open>Inl\<close> for the exception.
\<close>

datatype error =
    RuntimeError string
  | InvalidArgument string
  | OutOfRange string

section \<open>The standard string operations used by the descriptor parser\<close>

text \<open>
  \<^verbatim>\<open>std::string\<close> is a sequence of bytes: \<open>string\<close>. The result \<^verbatim>\<open>npos\<close> of
  \<^verbatim>\<open>find\<close> is \<open>None\<close>.
\<close>

definition dquote :: char where
  "dquote = CHR 0x22"

definition tab :: char where
  "tab = CHR 0x09"

definition newline :: char where
  "newline = CHR 0x0A"

primrec starts_with :: "string \<Rightarrow> string \<Rightarrow> bool" where
  "starts_with [] s = True"
| "starts_with (c # cs) s = (case s of [] \<Rightarrow> False | d # ds \<Rightarrow> c = d \<and> starts_with cs ds)"

text \<open>Index of the first occurrence of \<open>needle\<close> in \<open>s\<close>.\<close>

primrec find_sub :: "string \<Rightarrow> string \<Rightarrow> nat option" where
  "find_sub needle [] = (if needle = [] then Some 0 else None)"
| "find_sub needle (c # cs) =
     (if starts_with needle (c # cs) then Some 0 else map_option Suc (find_sub needle cs))"

text \<open>\<^verbatim>\<open>s.find(needle, pos)\<close>\<close>

definition str_find :: "string \<Rightarrow> string \<Rightarrow> nat \<Rightarrow> nat option" where
  "str_find s needle pos =
     (if length s < pos then None
      else map_option (\<lambda>i. pos + i) (find_sub needle (drop pos s)))"

text \<open>\<^verbatim>\<open>s.find(c, pos)\<close> for a single character.\<close>

definition chr_find :: "string \<Rightarrow> char \<Rightarrow> nat \<Rightarrow> nat option" where
  "chr_find s c pos =
     (if c \<in> set (drop pos s) then Some (pos + length (takeWhile (\<lambda>d. d \<noteq> c) (drop pos s)))
      else None)"

text \<open>\<^verbatim>\<open>s.substr(pos, n)\<close> throws \<^verbatim>\<open>std::out_of_range\<close> when \<open>pos\<close> is past the end.\<close>

definition substr :: "string \<Rightarrow> nat \<Rightarrow> nat \<Rightarrow> error + string" where
  "substr s pos n =
     (if length s < pos then Inl (OutOfRange ''basic_string::substr'')
      else Inr (take n (drop pos s)))"

text \<open>
  \<^verbatim>\<open>std::stoi(val)\<close>: skips leading white space, reads an optional sign and the
  longest run of decimal digits; throws \<^verbatim>\<open>std::invalid_argument\<close> when there is no
  digit and \<^verbatim>\<open>std::out_of_range\<close> when the value does not fit a 32-bit \<^verbatim>\<open>int\<close>.
\<close>

definition isspace :: "char \<Rightarrow> bool" where
  "isspace c = (c = CHR '' '' \<or> (9 \<le> (of_char c :: nat) \<and> (of_char c :: nat) \<le> 13))"

definition isdigit :: "char \<Rightarrow> bool" where
  "isdigit c = (48 \<le> (of_char c :: nat) \<and> (of_char c :: nat) \<le> 57)"

definition digits_value :: "string \<Rightarrow> int" where
  "digits_value ds = foldl (\<lambda>acc c. 10 * acc + ((of_char c :: int) - 48)) 0 ds"

definition stoi :: "string \<Rightarrow> error + int" where
  "stoi s =
     (let s1 = dropWhile isspace s;
          neg = (case s1 of [] \<Rightarrow> False | c # _ \<Rightarrow> c = CHR ''-'');
          s2 = (case s1 of [] \<Rightarrow> [] | c # r \<Rightarrow> if c = CHR ''-'' \<or> c = CHR ''+'' then r else s1);
          ds = takeWhile isdigit s2;
          v = (if neg then - digits_value ds else digits_value ds)
      in if ds = [] then Inl (InvalidArgument ''stoi'')
         else if v < - (2 ^ 31) \<or> 2 ^ 31 - 1 < v then Inl (OutOfRange ''stoi'')
         else Inr v)"

section \<open>The descriptor parser (raquet\_metadata.hpp)\<close>

record RaquetMetadata =
  compression :: string
  block_width :: int
  block_height :: int
  min_zoom :: int
  max_zoom :: int
  pixel_zoom :: int
  num_blocks :: int
  scheme :: string
  crs :: string
  bands :: "(string \<times> string) list"

text \<open>\<^verbatim>\<open>RaquetMetadata::get_band_type(int band_index)\<close>\<close>

definition get_band_type :: "RaquetMetadata \<Rightarrow> int \<Rightarrow> error + string" where
  "get_band_type meta band_index =
     (if band_index < 0 \<or> int (length (bands meta)) \<le> band_index
      then Inl (InvalidArgument ''Band index out of range'')
      else Inr (snd (bands meta ! nat band_index)))"

text \<open>The search string \<^verbatim>\<open>"\"" + key + "\":"\<close>.\<close>

definition search_key :: "string \<Rightarrow> string" where
  "search_key key = dquote # key @ [dquote, CHR '':'']"

text \<open>The loop \<^verbatim>\<open>while (pos < json.size() && (json[pos] == ' ' || json[pos] == '\t')) pos++\<close>.\<close>

function skip_blank :: "string \<Rightarrow> nat \<Rightarrow> nat" where
  "skip_blank json pos =
     (if pos < length json \<and> (json ! pos = CHR '' '' \<or> json ! pos = tab)
      then skip_blank json (Suc pos) else pos)"
  by pat_completeness auto
termination
  by (relation "measure (\<lambda>(json, pos). length json - pos)") auto

declare skip_blank.simps [simp del]

text \<open>The scan for the end of an unquoted value: up to \<^verbatim>\<open>,\<close>, \<^verbatim>\<open>}\<close> or \<^verbatim>\<open>]\<close>.\<close>

function scan_value :: "string \<Rightarrow> nat \<Rightarrow> nat" where
  "scan_value json end =
     (if end < length json \<and> json ! end \<noteq> CHR '','' \<and> json ! end \<noteq> CHR ''}''
         \<and> json ! end \<noteq> CHR '']''
      then scan_value json (Suc end) else end)"
  by pat_completeness auto
termination
  by (relation "measure (\<lambda>(json, e). length json - e)") auto

declare scan_value.simps [simp del]

text \<open>The loop \<^verbatim>\<open>while (!val.empty() && (val.back() == ' ' || val.back() == '\t')) val.pop_back()\<close>.\<close>

function trim_back :: "string \<Rightarrow> string" where
  "trim_back val =
     (if val \<noteq> [] \<and> (last val = CHR '' '' \<or> last val = tab)
      then trim_back (butlast val) else val)"
  by pat_completeness auto
termination
  by (relation "measure length") auto

declare trim_back.simps [simp del]

definition extract_json_string :: "string \<Rightarrow> string \<Rightarrow> error + string" where
  "extract_json_string json key =
     (let search = search_key key in
      case str_find json search 0 of
        None \<Rightarrow> Inr []
      | Some p \<Rightarrow>
          (let pos = skip_blank json (p + length search) in
           if length json \<le> pos then Inr []
           else if json ! pos = dquote then
             (case chr_find json dquote (Suc pos) of
                None \<Rightarrow> Inr []
              | Some e \<Rightarrow> substr json (Suc pos) (e - Suc pos))
           else
             (case substr json pos (scan_value json pos - pos) of
                Inl ex \<Rightarrow> Inl ex
              | Inr val \<Rightarrow> Inr (trim_back val))))"

text \<open>The \<^verbatim>\<open>catch (...)\<close> around \<^verbatim>\<open>std::stoi\<close> turns both of its exceptions into the default.\<close>

definition extract_json_int :: "string \<Rightarrow> string \<Rightarrow> int \<Rightarrow> error + int" where
  "extract_json_int json key default_val =
     (case extract_json_string json key of
        Inl ex \<Rightarrow> Inl ex
      | Inr val \<Rightarrow>
          if val = [] then Inr default_val
          else (case stoi val of Inl _ \<Rightarrow> Inr default_val | Inr n \<Rightarrow> Inr n))"

text \<open>White space before a nested object also covers the newline.\<close>

function skip_space :: "string \<Rightarrow> nat \<Rightarrow> nat" where
  "skip_space json pos =
     (if pos < length json \<and> (json ! pos = CHR '' '' \<or> json ! pos = tab \<or> json ! pos = newline)
      then skip_space json (Suc pos) else pos)"
  by pat_completeness auto
termination
  by (relation "measure (\<lambda>(json, pos). length json - pos)") auto

declare skip_space.simps [simp del]

text \<open>The brace-depth loop; \<open>depth\<close> is a C++ \<^verbatim>\<open>int\<close> that starts at 1.\<close>

function match_brace :: "string \<Rightarrow> nat \<Rightarrow> int \<Rightarrow> nat" where
  "match_brace json pos depth =
     (if pos < length json \<and> 0 < depth
      then match_brace json (Suc pos)
             (if json ! pos = CHR ''{'' then depth + 1
              else if json ! pos = CHR ''}'' then depth - 1 else depth)
      else pos)"
  by pat_completeness auto
termination
  by (relation "measure (\<lambda>(json, pos, depth). length json - pos)") auto

declare match_brace.simps [simp del]

definition extract_json_object :: "string \<Rightarrow> string \<Rightarrow> error + string" where
  "extract_json_object json key =
     (let search = search_key key in
      case str_find json search 0 of
        None \<Rightarrow> Inr []
      | Some p \<Rightarrow>
          (let pos = skip_space json (p + length search) in
           if length json \<le> pos \<or> json ! pos \<noteq> CHR ''{'' then Inr []
           else substr json pos (match_brace json (Suc pos) 1 - pos)))"

text \<open>
  The loop of \<^verbatim>\<open>parse_bands\<close> over \<^verbatim>\<open>bands_str\<close>; \<open>acc\<close> is the vector
  \<^verbatim>\<open>bands\<close> built so far.
\<close>

function parse_bands_loop ::
  "string \<Rightarrow> nat \<Rightarrow> (string \<times> string) list \<Rightarrow> error + (string \<times> string) list" where
  "parse_bands_loop bands_str pos acc =
     (if pos < length bands_str then
        (case chr_find bands_str (CHR ''{'') pos of
           None \<Rightarrow> Inr acc
         | Some obj_start \<Rightarrow>
             (case chr_find bands_str (CHR ''}'') obj_start of
                None \<Rightarrow> Inr acc
              | Some obj_end \<Rightarrow>
                  (case substr bands_str obj_start (obj_end - obj_start + 1) of
                     Inl ex \<Rightarrow> Inl ex
                   | Inr band_obj \<Rightarrow>
                       (case extract_json_string band_obj ''name'' of
                          Inl ex \<Rightarrow> Inl ex
                        | Inr name \<Rightarrow>
                            (case extract_json_string band_obj ''type'' of
                               Inl ex \<Rightarrow> Inl ex
                             | Inr type \<Rightarrow>
                                 parse_bands_loop bands_str (obj_end + 1)
                                   (if name \<noteq> [] \<and> type \<noteq> [] then acc @ [(name, type)]
                                    else acc))))))
      else Inr acc)"
  by pat_completeness auto
termination
proof (relation "measure (\<lambda>(s, pos, acc). length s - pos)", goal_cases)
  case 1
  show ?case by simp
next
  case (2 s pos acc obj_start obj_end)
  from 2(2) have "pos \<le> obj_start"
    by (auto simp: chr_find_def split: if_splits)
  moreover have "obj_start \<le> obj_end \<and> obj_end < length s"
  proof -
    let ?r = "drop obj_start s"
    let ?t = "takeWhile (\<lambda>d. d \<noteq> CHR ''}'') ?r"
    from 2(3) have mem: "CHR ''}'' \<in> set ?r" and e: "obj_end = obj_start + length ?t"
      by (auto simp: chr_find_def split: if_splits)
    from mem have "?t \<noteq> ?r"
      by auto
    moreover have "length ?t \<le> length ?r"
      by (rule length_takeWhile_le)
    ultimately have "length ?t < length ?r"
      by (metis le_neq_implies_less takeWhile_eq_take take_all_iff order_refl)
    with e show ?thesis by auto
  qed
  ultimately show ?case by auto
qed

declare parse_bands_loop.simps [simp del]

definition parse_bands :: "string \<Rightarrow> error + (string \<times> string) list" where
  "parse_bands json =
     (case str_find json (search_key ''bands'') 0 of
        None \<Rightarrow> Inr []
      | Some bands_pos \<Rightarrow>
          (case chr_find json (CHR ''['') bands_pos of
             None \<Rightarrow> Inr []
           | Some arr_start \<Rightarrow>
               (case chr_find json (CHR '']'') arr_start of
                  None \<Rightarrow> Inr []
                | Some arr_end \<Rightarrow>
                    (case substr json (arr_start + 1) (arr_end - arr_start - 1) of
                       Inl ex \<Rightarrow> Inl ex
                     | Inr bands_str \<Rightarrow> parse_bands_loop bands_str 0 []))))"

text \<open>
  Sequencing of calls that may throw: the first exception ends the computation.
\<close>

definition and_then :: "error + 'a \<Rightarrow> ('a \<Rightarrow> error + 'b) \<Rightarrow> error + 'b" where
  "and_then m f = (case m of Inl ex \<Rightarrow> Inl ex | Inr v \<Rightarrow> f v)"

text \<open>
  \<^verbatim>\<open>parse_metadata\<close>: the assignments to the fields of \<^verbatim>\<open>meta\<close>, in the order of the
  source. With a non-empty tiling object the scheme is whatever \<^verbatim>\<open>extract_json_string\<close>
  returns for it; the literal \<^verbatim>\<open>"quadbin"\<close> is assigned only in the other branch.
\<close>

definition parse_metadata :: "string \<Rightarrow> error + RaquetMetadata" where
  "parse_metadata json =
     and_then (extract_json_string json ''compression'') (\<lambda>c0.
     and_then (extract_json_string json ''crs'') (\<lambda>crs0.
     and_then (extract_json_object json ''tiling'') (\<lambda>tiling.
     and_then
       (if tiling \<noteq> [] then
          and_then (extract_json_int tiling ''min_zoom'' 0) (\<lambda>minz.
          and_then (extract_json_int tiling ''max_zoom'' 26) (\<lambda>maxz.
          and_then (extract_json_int tiling ''pixel_zoom'' 0) (\<lambda>pixz.
          and_then (extract_json_int tiling ''num_blocks'' 0) (\<lambda>nblocks.
          and_then (extract_json_int tiling ''block_width'' 256) (\<lambda>bw.
          and_then (extract_json_int tiling ''block_height'' 256) (\<lambda>bh.
          and_then (extract_json_string tiling ''scheme'') (\<lambda>sch.
          Inr (minz, maxz, pixz, nblocks, bw, bh, sch))))))))
        else Inr (0, 26, 0, 0, 256, 256, ''quadbin''))
       (\<lambda>(minz, maxz, pixz, nblocks, bw, bh, sch).
     and_then (parse_bands json) (\<lambda>bs.
     Inr \<lparr> compression = (if c0 = [] then ''none'' else c0),
           block_width = bw, block_height = bh,
           min_zoom = minz, max_zoom = maxz, pixel_zoom = pixz,
           num_blocks = nblocks, scheme = sch, crs = crs0, bands = bs \<rparr>)))))"

section \<open>The band list as the specification describes it\<close>

text \<open>
  A second description of the band list, written from the words of the specification and
  compared with \<^verbatim>\<open>parse_bands\<close> below. It works on the text itself, not on positions.
\<close>

text \<open>The text before the first occurrence of a character, and the text after it.\<close>

definition before_first :: "char \<Rightarrow> string \<Rightarrow> string" where
  "before_first c s = takeWhile (\<lambda>d. d \<noteq> c) s"

definition after_first :: "char \<Rightarrow> string \<Rightarrow> string" where
  "after_first c s = tl (dropWhile (\<lambda>d. d \<noteq> c) s)"

text \<open>
  The span of the band list: what stands between the first \<^verbatim>\<open>[\<close> after the first
  occurrence of the key and the first \<^verbatim>\<open>]\<close> after that bracket. There is none when the
  key, the opening or the closing bracket is missing.
\<close>

definition bands_span_spec :: "string \<Rightarrow> string option" where
  "bands_span_spec json =
     (case find_sub (search_key ''bands'') json of
        None \<Rightarrow> None
      | Some k \<Rightarrow>
          if CHR ''['' \<in> set (drop k json)
             \<and> CHR '']'' \<in> set (after_first (CHR ''['') (drop k json))
          then Some (before_first (CHR '']'') (after_first (CHR ''['') (drop k json)))
          else None)"

text \<open>
  The objects of a span, in order: the next object starts at the next \<^verbatim>\<open>{\<close> and ends at
  the first \<^verbatim>\<open>}\<close> after it; the search goes on behind that brace. A \<^verbatim>\<open>{\<close> with no
  \<^verbatim>\<open>}\<close> after it ends the list.
\<close>

function band_objects_spec :: "string \<Rightarrow> string list" where
  "band_objects_spec inner =
     (if CHR ''{'' \<in> set inner
         \<and> CHR ''}'' \<in> set (dropWhile (\<lambda>d. d \<noteq> CHR ''{'') inner)
      then (before_first (CHR ''}'') (dropWhile (\<lambda>d. d \<noteq> CHR ''{'') inner) @ ''}'')
           # band_objects_spec (after_first (CHR ''}'') (dropWhile (\<lambda>d. d \<noteq> CHR ''{'') inner))
      else [])"
  by pat_completeness auto
termination
proof (relation "measure length", goal_cases)
  case 1
  show ?case by simp
next
  case (2 inner)
  let ?r = "dropWhile (\<lambda>d. d \<noteq> CHR ''{'') inner"
  from 2 have "dropWhile (\<lambda>d. d \<noteq> CHR ''}'') ?r \<noteq> []"
    by auto
  then have "length (tl (dropWhile (\<lambda>d. d \<noteq> CHR ''}'') ?r))
      < length (dropWhile (\<lambda>d. d \<noteq> CHR ''}'') ?r)"
    by (cases "dropWhile (\<lambda>d. d \<noteq> CHR ''}'') ?r") simp_all
  also have "\<dots> \<le> length ?r"
    by (rule length_dropWhile_le)
  also have "\<dots> \<le> length inner"
    by (rule length_dropWhile_le)
  finally show ?case by (simp add: after_first_def)
qed

declare band_objects_spec.simps [simp del]

text \<open>
  The scalar string rule of the specification: locate the first occurrence of the key
  with its colon, skip white space, then read either a quoted string or an unquoted token
  up to the next \<^verbatim>\<open>,\<close>, \<^verbatim>\<open>}\<close> or \<^verbatim>\<open>]\<close>, with its trailing white space trimmed. The
  rule leaves two notions open, which are parameters here: \<open>ws\<close>, the characters that
  count as white space, and \<open>quoted\<close>, the text of a quoted string given what follows its
  opening quote (\<open>None\<close> when the string does not end). A field that is not found, or
  whose quoted string does not end, is empty.
\<close>

definition backslash :: char where
  "backslash = CHR 0x5C"

definition token_end :: "char \<Rightarrow> bool" where
  "token_end c = (c = CHR '','' \<or> c = CHR ''}'' \<or> c = CHR '']'')"

definition trim_trailing :: "(char \<Rightarrow> bool) \<Rightarrow> string \<Rightarrow> string" where
  "trim_trailing ws v = rev (dropWhile ws (rev v))"

definition scalar_string_spec ::
  "(char \<Rightarrow> bool) \<Rightarrow> (string \<Rightarrow> string option) \<Rightarrow> string \<Rightarrow> string \<Rightarrow> string" where
  "scalar_string_spec ws quoted obj key =
     (case find_sub (search_key key) obj of
        None \<Rightarrow> []
      | Some k \<Rightarrow>
          (case dropWhile ws (drop (k + length (search_key key)) obj) of
             [] \<Rightarrow> []
           | c # cs \<Rightarrow>
               if c = dquote then (case quoted cs of None \<Rightarrow> [] | Some v \<Rightarrow> v)
               else trim_trailing ws (takeWhile (\<lambda>d. \<not> token_end d) (c # cs))))"

text \<open>
  The rule as the specification words it: white space is what \<^verbatim>\<open>isspace\<close> accepts, and a
  quoted string runs up to the next unescaped quote, that is the next double quote that no
  backslash escapes; its text is not decoded.
\<close>

fun quoted_upto_unescaped :: "string \<Rightarrow> string option" where
  "quoted_upto_unescaped [] = None"
| "quoted_upto_unescaped [c] = (if c = dquote then Some [] else None)"
| "quoted_upto_unescaped (c # d # cs) =
     (if c = dquote then Some []
      else if c = backslash then map_option (\<lambda>v. c # d # v) (quoted_upto_unescaped cs)
      else map_option (\<lambda>v. c # v) (quoted_upto_unescaped (d # cs)))"

text \<open>
  The rule as the parser applies it: white space is the space and the tab, and a quoted
  string runs up to the next double quote, whether a backslash stands before it or not.
\<close>

definition blank :: "char \<Rightarrow> bool" where
  "blank c = (c = CHR '' '' \<or> c = tab)"

definition quoted_upto_first :: "string \<Rightarrow> string option" where
  "quoted_upto_first s =
     (if dquote \<in> set s then Some (takeWhile (\<lambda>c. c \<noteq> dquote) s) else None)"

text \<open>The name and the type of an object are its string fields of these names.\<close>

definition band_entry_spec ::
  "(char \<Rightarrow> bool) \<Rightarrow> (string \<Rightarrow> string option) \<Rightarrow> string \<Rightarrow> string \<times> string" where
  "band_entry_spec ws quoted obj =
     (scalar_string_spec ws quoted obj ''name'', scalar_string_spec ws quoted obj ''type'')"

definition complete_entry :: "string \<times> string \<Rightarrow> bool" where
  "complete_entry e = (fst e \<noteq> [] \<and> snd e \<noteq> [])"

text \<open>The band list: the entries of the objects of the span, without the incomplete ones.\<close>

definition band_list_spec ::
  "(char \<Rightarrow> bool) \<Rightarrow> (string \<Rightarrow> string option) \<Rightarrow> string \<Rightarrow> (string \<times> string) list" where
  "band_list_spec ws quoted json =
     (case bands_span_spec json of
        None \<Rightarrow> []
      | Some inner \<Rightarrow>
          filter complete_entry (map (band_entry_spec ws quoted) (band_objects_spec inner)))"

section \<open>Buffers and the zlib interface\<close>

text \<open>
  A \<^verbatim>\<open>const uint8_t *\<close> is either null or points to the first byte of a buffer. The
  callers in this repository pass the length of that buffer as the size.
\<close>

type_synonym byte = "8 word"

datatype buffer_ptr = NullPtr | Ptr "byte list"

text \<open>\<^verbatim>\<open>static_cast<uInt>\<close> (32 bits) and arithmetic in \<^verbatim>\<open>size_t\<close> (64 bits).\<close>

definition to_uInt :: "nat \<Rightarrow> nat" where
  "to_uInt n = n mod 2 ^ 32"

definition to_size_t :: "nat \<Rightarrow> nat" where
  "to_size_t n = n mod 2 ^ 64"

definition Z_OK :: int where
  "Z_OK = 0"

definition Z_STREAM_END :: int where
  "Z_STREAM_END = 1"

definition Z_DATA_ERROR :: int where
  "Z_DATA_ERROR = - 3"

definition Z_BUF_ERROR :: int where
  "Z_BUF_ERROR = - 5"

text \<open>
  zlib is an external library: the model takes it as a parameter. \<open>inflateInit2 z k\<close> is
  the return code of the \<open>k\<close>-th initialisation within one call of
  \<^verbatim>\<open>decompress_gzip\<close> (counted from 0); \<open>inflate z input avail_out\<close> is the return code
  of \<^verbatim>\<open>inflate(&strm, Z_FINISH)\<close> on the given input with \<open>avail_out\<close> bytes of output
  space, together with the bytes it wrote (never more than \<open>avail_out\<close>: the model cuts
  them there).
\<close>

record zlib =
  inflateInit2 :: "nat \<Rightarrow> int"
  inflate :: "byte list \<Rightarrow> nat \<Rightarrow> int \<times> byte list"

text \<open>
  One decompression pass, as the trace of \<^verbatim>\<open>decompress_gzip\<close> records it: the size of
  the output vector, the output space that zlib is told of (\<^verbatim>\<open>avail_out\<close> before the
  pass), the return code, and \<^verbatim>\<open>avail_out\<close> after the pass.
\<close>

record attempt =
  buffer_size :: nat
  out_space :: nat
  ret :: int
  avail_out :: nat

text \<open>\<^verbatim>\<open>result.resize(n)\<close> on a vector of bytes: new elements are zero.\<close>

definition resize :: "byte list \<Rightarrow> nat \<Rightarrow> byte list" where
  "resize v n = take n v @ replicate (n - length v) 0"

text \<open>
  A pass over the vector \<open>result\<close>: \<^verbatim>\<open>avail_in\<close> and \<^verbatim>\<open>avail_out\<close> are the sizes cast
  to \<^verbatim>\<open>uInt\<close>; the bytes written replace the front of the vector.
\<close>

definition inflate_pass :: "zlib \<Rightarrow> byte list \<Rightarrow> byte list \<Rightarrow> attempt \<times> byte list" where
  "inflate_pass z input result =
     (let avail_in = to_uInt (length input);
          space = to_uInt (length result);
          r = inflate z (take avail_in input) space;
          written = take space (snd r)
      in (\<lparr> buffer_size = length result, out_space = space, ret = fst r,
              avail_out = space - length written \<rparr>,
          written @ drop (length written) result))"

text \<open>\<^verbatim>\<open>std::to_string(int)\<close>\<close>

fun nat_to_string :: "nat \<Rightarrow> string" where
  "nat_to_string n =
     (if n < 10 then [''0123456789'' ! n]
      else nat_to_string (n div 10) @ [''0123456789'' ! (n mod 10)])"

declare nat_to_string.simps [simp del]

definition to_string :: "int \<Rightarrow> string" where
  "to_string i = (if i < 0 then CHR ''-'' # nat_to_string (nat (- i)) else nat_to_string (nat i))"

section \<open>Decompression and pixel decoding (band\_decoder.cpp)\<close>

text \<open>
  \<^verbatim>\<open>decompress_gzip(data, size)\<close>, with \<open>sz\<close> for the size. The model returns the
  passes of \<^verbatim>\<open>inflate\<close> that were run, in order, and the result. Failure of a memory
  allocation is not modelled.
\<close>

definition decompress_gzip ::
  "zlib \<Rightarrow> buffer_ptr \<Rightarrow> nat \<Rightarrow> attempt list \<times> (error + byte list)" where
  "decompress_gzip z data sz =
     (if sz = 0 then ([], Inr [])
      else case data of
        NullPtr \<Rightarrow> ([], Inl (RuntimeError ''Null data pointer for decompression''))
      | Ptr bs \<Rightarrow>
          (let estimated_size = (if 100 < sz then to_size_t (sz * 50) else 256 * 256);
               result = replicate estimated_size 0;
               input = take sz bs
           in if inflateInit2 z 0 \<noteq> Z_OK
              then ([], Inl (RuntimeError (''inflateInit2 failed: '' @ to_string (inflateInit2 z 0))))
              else
                (let p1 = inflate_pass z input result; a1 = fst p1; result1 = snd p1 in
                 if ret a1 = Z_BUF_ERROR \<and> avail_out a1 = 0 then
                   (let result2 = resize result1 (to_size_t (length result1 * 4)) in
                    if inflateInit2 z 1 \<noteq> Z_OK
                    then ([a1], Inl (RuntimeError ''inflateInit2 retry failed''))
                    else
                      (let p2 = inflate_pass z input result2; a2 = fst p2; result3 = snd p2;
                           decompressed_size = length result3 - avail_out a2
                       in if ret a2 \<noteq> Z_STREAM_END
                          then ([a1, a2],
                                Inl (RuntimeError (''inflate retry failed: '' @ to_string (ret a2))))
                          else ([a1, a2], Inr (resize result3 decompressed_size))))
                 else if ret a1 \<noteq> Z_STREAM_END
                 then ([a1], Inl (RuntimeError (''inflate failed: '' @ to_string (ret a1))))
                 else ([a1], Inr (resize result1 (length result1 - avail_out a1))))))"

text \<open>
  The choice of the buffer that is read, shared by \<^verbatim>\<open>decode_pixel\<close> and the statistics:
  the decompressed vector when \<open>compressed\<close>, the caller's pointer otherwise.
\<close>

definition band_buffer :: "zlib \<Rightarrow> buffer_ptr \<Rightarrow> nat \<Rightarrow> bool \<Rightarrow> error + buffer_ptr" where
  "band_buffer z band_data band_size compressed =
     (if compressed
      then (case snd (decompress_gzip z band_data band_size) of
              Inl ex \<Rightarrow> Inl ex
            | Inr decompressed \<Rightarrow> Inr (Ptr decompressed))
      else Inr band_data)"

text \<open>
  \<^verbatim>\<open>static_cast<size_t>(pixel_y) * width + pixel_x\<close>: the three \<^verbatim>\<open>int\<close>s are converted to
  \<^verbatim>\<open>size_t\<close> and the arithmetic is modulo \<open>2 ^ 64\<close>.
\<close>

definition pixel_offset :: "int \<Rightarrow> int \<Rightarrow> int \<Rightarrow> nat" where
  "pixel_offset pixel_x pixel_y width = nat ((pixel_y * width + pixel_x) mod 2 ^ 64)"

text \<open>
  \<^verbatim>\<open>decode_pixel\<close>. The header \<^verbatim>\<open>band_decoder.hpp\<close> with \<^verbatim>\<open>parse_dtype\<close> and
  \<^verbatim>\<open>get_pixel_value\<close> is not among the sources: the two functions are the parameters
  \<open>parse_dt\<close> and \<open>get_px\<close>. The function has no height parameter and compares the
  offset with nothing.
\<close>

definition decode_pixel ::
  "(string \<Rightarrow> error + 'dt) \<Rightarrow> (buffer_ptr \<Rightarrow> nat \<Rightarrow> 'dt \<Rightarrow> 'v) \<Rightarrow> zlib \<Rightarrow>
   buffer_ptr \<Rightarrow> nat \<Rightarrow> string \<Rightarrow> int \<Rightarrow> int \<Rightarrow> int \<Rightarrow> bool \<Rightarrow> error + 'v" where
  "decode_pixel parse_dt get_px z band_data band_size dtype_str pixel_x pixel_y width compressed =
     and_then (parse_dt dtype_str) (\<lambda>dtype.
     and_then (band_buffer z band_data band_size compressed) (\<lambda>data.
     Inr (get_px data (pixel_offset pixel_x pixel_y width) dtype)))"

section \<open>Double-precision values\<close>

text \<open>
  A \<^verbatim>\<open>double\<close> is modelled by the value it denotes: not-a-number, an infinity, or a real
  number. Both zeros are the real number 0 and every not-a-number is \<open>NaN\<close>; rounding is not
  modelled. \<open>feq\<close> is the comparison \<^verbatim>\<open>==\<close>, which no not-a-number satisfies.
\<close>

datatype f64 = NaN | PInf | NInf | Fin real

definition isnan :: "f64 \<Rightarrow> bool" where
  "isnan v = (v = NaN)"

definition feq :: "f64 \<Rightarrow> f64 \<Rightarrow> bool" where
  "feq a b = (\<not> isnan a \<and> \<not> isnan b \<and> a = b)"

fun flt :: "f64 \<Rightarrow> f64 \<Rightarrow> bool" where
  "flt NaN b = False"
| "flt a NaN = False"
| "flt PInf b = False"
| "flt a NInf = False"
| "flt NInf b = True"
| "flt a PInf = True"
| "flt (Fin x) (Fin y) = (x < y)"

fun fneg :: "f64 \<Rightarrow> f64" where
  "fneg NaN = NaN"
| "fneg PInf = NInf"
| "fneg NInf = PInf"
| "fneg (Fin x) = Fin (- x)"

fun fadd :: "f64 \<Rightarrow> f64 \<Rightarrow> f64" where
  "fadd NaN b = NaN"
| "fadd a NaN = NaN"
| "fadd PInf NInf = NaN"
| "fadd NInf PInf = NaN"
| "fadd PInf b = PInf"
| "fadd a PInf = PInf"
| "fadd NInf b = NInf"
| "fadd a NInf = NInf"
| "fadd (Fin x) (Fin y) = Fin (x + y)"

definition fsub :: "f64 \<Rightarrow> f64 \<Rightarrow> f64" where
  "fsub a b = fadd a (fneg b)"

text \<open>The sign of a value other than \<open>NaN\<close>: \<open>-1\<close>, \<open>0\<close> or \<open>1\<close>.\<close>

fun fsign :: "f64 \<Rightarrow> int" where
  "fsign NaN = 0"
| "fsign PInf = 1"
| "fsign NInf = - 1"
| "fsign (Fin x) = (if x < 0 then - 1 else if x = 0 then 0 else 1)"

definition signed_inf :: "int \<Rightarrow> f64" where
  "signed_inf s = (if s = 0 then NaN else if s < 0 then NInf else PInf)"

fun fmul :: "f64 \<Rightarrow> f64 \<Rightarrow> f64" where
  "fmul NaN b = NaN"
| "fmul a NaN = NaN"
| "fmul (Fin x) (Fin y) = Fin (x * y)"
| "fmul a b = signed_inf (fsign a * fsign b)"

fun fdiv :: "f64 \<Rightarrow> f64 \<Rightarrow> f64" where
  "fdiv NaN b = NaN"
| "fdiv a NaN = NaN"
| "fdiv (Fin x) (Fin y) = (if y = 0 then signed_inf (fsign (Fin x)) else Fin (x / y))"
| "fdiv (Fin x) b = Fin 0"
| "fdiv a (Fin y) = signed_inf (fsign a * (if y < 0 then - 1 else 1))"
| "fdiv a b = NaN"

fun fsqrt :: "f64 \<Rightarrow> f64" where
  "fsqrt NaN = NaN"
| "fsqrt PInf = PInf"
| "fsqrt NInf = NaN"
| "fsqrt (Fin x) = (if x < 0 then NaN else Fin (sqrt x))"

section \<open>The pixel type registry and the streaming statistics (band\_decoder.hpp)\<close>

text \<open>
  Modelled from the spec: the header \<^verbatim>\<open>band_decoder.hpp\<close>, which declares
  \<^verbatim>\<open>BandDataType\<close>, \<^verbatim>\<open>parse_dtype\<close>, \<^verbatim>\<open>get_pixel_value\<close>, \<^verbatim>\<open>BandStats\<close> and
  \<^verbatim>\<open>compute_band_stats\<close>, is not among the sources. The specification gives the pixel
  types as the unsigned and signed integers of 8, 16, 32 and 64 bits and the floating
  point numbers of 32 and 64 bits, read at an element offset and widened to a double.
  The names of the types follow the two the specification shows (\<^verbatim>\<open>uint8\<close>,
  \<^verbatim>\<open>float32\<close>); the bytes of an element are taken in the order of the host, least
  significant first.
\<close>

datatype BandDataType =
  UINT8 | INT8 | UINT16 | INT16 | UINT32 | INT32 | UINT64 | INT64 | FLOAT32 | FLOAT64

text \<open>Modelled from the spec: \<open>parseType\<close>, which raises for an unrecognised name.\<close>

definition parse_dtype :: "string \<Rightarrow> error + BandDataType" where
  "parse_dtype name =
     (if name = ''uint8'' then Inr UINT8
      else if name = ''int8'' then Inr INT8
      else if name = ''uint16'' then Inr UINT16
      else if name = ''int16'' then Inr INT16
      else if name = ''uint32'' then Inr UINT32
      else if name = ''int32'' then Inr INT32
      else if name = ''uint64'' then Inr UINT64
      else if name = ''int64'' then Inr INT64
      else if name = ''float32'' then Inr FLOAT32
      else if name = ''float64'' then Inr FLOAT64
      else Inl (InvalidArgument (''Unknown dtype: '' @ name)))"

text \<open>Modelled from the spec: the byte width of a pixel type.\<close>

fun dtype_size :: "BandDataType \<Rightarrow> nat" where
  "dtype_size UINT8 = 1"
| "dtype_size INT8 = 1"
| "dtype_size UINT16 = 2"
| "dtype_size INT16 = 2"
| "dtype_size UINT32 = 4"
| "dtype_size INT32 = 4"
| "dtype_size UINT64 = 8"
| "dtype_size INT64 = 8"
| "dtype_size FLOAT32 = 4"
| "dtype_size FLOAT64 = 8"

text \<open>
  Modelled from the spec: the unsigned value of the bytes of an element, the least
  significant byte first.
\<close>

definition le_value :: "byte list \<Rightarrow> nat" where
  "le_value bs = foldr (\<lambda>b acc. unat b + 256 * acc) bs 0"

text \<open>
  Modelled from the spec: the two's complement reading of an unsigned value of the given
  number of bits.
\<close>

definition signed_value :: "nat \<Rightarrow> nat \<Rightarrow> int" where
  "signed_value bits v = (if 2 ^ (bits - 1) \<le> v then int v - 2 ^ bits else int v)"

text \<open>
  Modelled from the spec: the power of two with an integer exponent, for the floating
  point types.
\<close>

definition pow2 :: "int \<Rightarrow> real" where
  "pow2 k = (if 0 \<le> k then 2 ^ nat k else 1 / 2 ^ nat (- k))"

text \<open>
  Modelled from the spec: the value of an IEEE 754 bit pattern with \<open>e\<close> exponent bits and
  \<open>m\<close> fraction bits.
\<close>

definition ieee_value :: "nat \<Rightarrow> nat \<Rightarrow> nat \<Rightarrow> f64" where
  "ieee_value e m bits =
     (let negative = ((bits div 2 ^ (e + m)) mod 2 = 1);
          ex = (bits div 2 ^ m) mod 2 ^ e;
          frac = bits mod 2 ^ m;
          bias = 2 ^ (e - 1) - 1;
          mag = (if ex = 0 then real frac * pow2 (1 - int bias - int m)
                 else real (2 ^ m + frac) * pow2 (int ex - int bias - int m))
      in if ex = 2 ^ e - 1
         then (if frac \<noteq> 0 then NaN else if negative then NInf else PInf)
         else Fin (if negative then - mag else mag))"

text \<open>
  Modelled from the spec: the value of the bytes of one element, by pixel type, widened
  to a double. The widening of a 64-bit integer is taken as exact.
\<close>

fun decode_value :: "BandDataType \<Rightarrow> byte list \<Rightarrow> f64" where
  "decode_value UINT8 raw = Fin (real (le_value raw))"
| "decode_value INT8 raw = Fin (real_of_int (signed_value 8 (le_value raw)))"
| "decode_value UINT16 raw = Fin (real (le_value raw))"
| "decode_value INT16 raw = Fin (real_of_int (signed_value 16 (le_value raw)))"
| "decode_value UINT32 raw = Fin (real (le_value raw))"
| "decode_value INT32 raw = Fin (real_of_int (signed_value 32 (le_value raw)))"
| "decode_value UINT64 raw = Fin (real (le_value raw))"
| "decode_value INT64 raw = Fin (real_of_int (signed_value 64 (le_value raw)))"
| "decode_value FLOAT32 raw = ieee_value 8 23 (le_value raw)"
| "decode_value FLOAT64 raw = ieee_value 11 52 (le_value raw)"

text \<open>
  Modelled from the spec: \<open>readValue\<close> at an element offset. The registry does not check
  the offset; a read that is not inside the buffer has no defined value in C++, which is
  \<open>None\<close> here.
\<close>

fun get_pixel_value :: "buffer_ptr \<Rightarrow> nat \<Rightarrow> BandDataType \<Rightarrow> f64 option" where
  "get_pixel_value NullPtr offset dtype = None"
| "get_pixel_value (Ptr bs) offset dtype =
     (let k = dtype_size dtype in
      if (offset + 1) * k \<le> length bs
      then Some (decode_value dtype (take k (drop (offset * k) bs)))
      else None)"

text \<open>
  Modelled from the spec: \<^verbatim>\<open>BandStats\<close>, the six aggregates that the row-wise adapter
  copies into its result struct.
\<close>

record BandStats =
  stat_count :: int
  stat_sum :: f64
  stat_mean :: f64
  stat_min :: f64
  stat_max :: f64
  stat_stddev :: f64

text \<open>
  Modelled from the spec: the nodata filter. A sample is excluded when nodata filtering
  is enabled and the sample matches the sentinel; a not-a-number sentinel matches every
  not-a-number sample, any other sentinel matches by \<^verbatim>\<open>==\<close>.
\<close>

definition is_nodata :: "bool \<Rightarrow> f64 \<Rightarrow> f64 \<Rightarrow> bool" where
  "is_nodata has_nd nd v = (has_nd \<and> (if isnan nd then isnan v else feq v nd))"

text \<open>
  Modelled from the spec: the running aggregates (count, sum, minimum, maximum, and the
  mean and second moment of Welford's update).
\<close>

record running =
  r_count :: int
  r_sum :: f64
  r_min :: f64
  r_max :: f64
  r_mean :: f64
  r_m2 :: f64

text \<open>Modelled from the spec: the running aggregates before the first sample.\<close>

definition running_init :: running where
  "running_init = \<lparr> r_count = 0, r_sum = Fin 0, r_min = PInf, r_max = NInf,
                     r_mean = Fin 0, r_m2 = Fin 0 \<rparr>"

text \<open>
  Modelled from the spec: the inclusion of one sample in the running aggregates, with
  Welford's update of the mean and the second moment.
\<close>

definition include_sample :: "running \<Rightarrow> f64 \<Rightarrow> running" where
  "include_sample acc v =
     (let n = r_count acc + 1;
          delta = fsub v (r_mean acc);
          mean' = fadd (r_mean acc) (fdiv delta (Fin (real_of_int n)))
      in \<lparr> r_count = n,
           r_sum = fadd (r_sum acc) v,
           r_min = (if flt v (r_min acc) then v else r_min acc),
           r_max = (if flt (r_max acc) v then v else r_max acc),
           r_mean = mean',
           r_m2 = fadd (r_m2 acc) (fmul delta (fsub v mean')) \<rparr>)"

text \<open>
  Modelled from the spec: one step of the streaming loop. The nodata filter is applied
  before the sample is included.
\<close>

definition visit_sample :: "bool \<Rightarrow> f64 \<Rightarrow> running \<Rightarrow> f64 \<Rightarrow> running" where
  "visit_sample has_nd nd acc v = (if is_nodata has_nd nd v then acc else include_sample acc v)"

text \<open>
  Modelled from the spec: with no sample included the sum is 0 and the other aggregates
  are undefined, which a struct of doubles reports as not-a-number.
\<close>

definition finish_stats :: "running \<Rightarrow> BandStats" where
  "finish_stats acc =
     (if r_count acc = 0
      then \<lparr> stat_count = 0, stat_sum = Fin 0, stat_mean = NaN, stat_min = NaN,
             stat_max = NaN, stat_stddev = NaN \<rparr>
      else \<lparr> stat_count = r_count acc, stat_sum = r_sum acc, stat_mean = r_mean acc,
             stat_min = r_min acc, stat_max = r_max acc,
             stat_stddev = fsqrt (fdiv (r_m2 acc) (Fin (real_of_int (r_count acc)))) \<rparr>)"

text \<open>
  Modelled from the spec: the aggregates of a list of samples, every one of them included.
\<close>

definition aggregate :: "f64 list \<Rightarrow> BandStats" where
  "aggregate vs = finish_stats (foldl include_sample running_init vs)"

text \<open>
  Modelled from the spec: the samples of the band, one per element offset from 0 up to
  width times height in row-major order, read by \<open>read_value\<close>.
\<close>

definition band_samples ::
  "(buffer_ptr \<Rightarrow> nat \<Rightarrow> 'dt \<Rightarrow> f64) \<Rightarrow> buffer_ptr \<Rightarrow> 'dt \<Rightarrow> int \<Rightarrow> int \<Rightarrow> f64 list" where
  "band_samples read_value data dtype width height =
     map (\<lambda>i. read_value data i dtype) [0 ..< nat (width * height)]"

text \<open>
  Modelled from the spec: \<open>computeStats\<close>. The type is parsed, the buffer is decompressed
  once when it is compressed, and every sample is visited in order. The registry is the
  pair of parameters \<open>parse_dt\<close> and \<open>read_value\<close>.
\<close>

definition compute_band_stats ::
  "(string \<Rightarrow> error + 'dt) \<Rightarrow> (buffer_ptr \<Rightarrow> nat \<Rightarrow> 'dt \<Rightarrow> f64) \<Rightarrow> zlib \<Rightarrow>
   buffer_ptr \<Rightarrow> nat \<Rightarrow> string \<Rightarrow> int \<Rightarrow> int \<Rightarrow> bool \<Rightarrow> bool \<Rightarrow> f64 \<Rightarrow>
   error + BandStats" where
  "compute_band_stats parse_dt read_value z band_data band_size dtype_str width height
       compressed has_nd nd =
     and_then (parse_dt dtype_str) (\<lambda>dtype.
     and_then (band_buffer z band_data band_size compressed) (\<lambda>data.
     Inr (finish_stats
            (foldl (visit_sample has_nd nd) running_init
               (band_samples read_value data dtype width height)))))"

section \<open>The row-wise adapter (st\_raster\_stats.cpp)\<close>

text \<open>
  The four functions loop over the rows of a chunk. A band is \<open>None\<close> when its row is
  NULL in the validity mask and the bytes of the blob otherwise. The result of a row is
  \<open>None\<close> when the row is set invalid and the struct of statistics otherwise. The body of
  the loop returns \<open>Inl\<close> if an exception leaves it, which ends the loop.

  \<^verbatim>\<open>compute_band_stats\<close> is declared in the missing header: it is the parameter \<open>cbs\<close>.
\<close>

type_synonym stats_fn =
  "buffer_ptr \<Rightarrow> nat \<Rightarrow> string \<Rightarrow> int \<Rightarrow> int \<Rightarrow> bool \<Rightarrow> bool \<Rightarrow> f64 \<Rightarrow> error + BandStats"

fun for_each_row :: "('r \<Rightarrow> error + 'a) \<Rightarrow> 'r list \<Rightarrow> error + 'a list" where
  "for_each_row body [] = Inr []"
| "for_each_row body (r # rs) =
     (case body r of
        Inl ex \<Rightarrow> Inl ex
      | Inr v \<Rightarrow> (case for_each_row body rs of Inl ex \<Rightarrow> Inl ex | Inr vs \<Rightarrow> Inr (v # vs)))"

text \<open>
  \<^verbatim>\<open>try { ... } catch (const std::exception &e) { result_validity.SetInvalid(i); }\<close>:
  every exception of the model is a \<^verbatim>\<open>std::exception\<close>.
\<close>

definition catch_to_null :: "error + BandStats \<Rightarrow> error + BandStats option" where
  "catch_to_null r = (case r of Inl ex \<Rightarrow> Inr None | Inr stats \<Rightarrow> Inr (Some stats))"

text \<open>
  \<^verbatim>\<open>STRasterSummaryStatsFunction\<close>, six arguments. The nodata column is read also where
  it is NULL; \<open>nodata_valid\<close> is its validity bit.
\<close>

definition STRasterSummaryStats_try ::
  "stats_fn \<Rightarrow> byte list \<Rightarrow> string \<Rightarrow> int \<Rightarrow> int \<Rightarrow> string \<Rightarrow> bool \<Rightarrow> f64 \<Rightarrow> error + BandStats" where
  "STRasterSummaryStats_try cbs band dtype width height compr nodata_valid nodata_v =
     (let compressed = (compr = ''gzip'');
          has_nd = nodata_valid
      in cbs (Ptr band) (length band) dtype width height compressed has_nd nodata_v)"

definition STRasterSummaryStats_row ::
  "stats_fn \<Rightarrow> byte list option \<times> string \<times> int \<times> int \<times> string \<times> bool \<times> f64 \<Rightarrow>
   error + BandStats option" where
  "STRasterSummaryStats_row cbs =
     (\<lambda>(band_opt, dtype, width, height, compr, nodata_valid, nodata_v).
        case band_opt of
          None \<Rightarrow> Inr None
        | Some band \<Rightarrow>
            if length band = 0 then Inr None
            else catch_to_null
                   (STRasterSummaryStats_try cbs band dtype width height compr nodata_valid
                      nodata_v))"

definition STRasterSummaryStatsFunction ::
  "stats_fn \<Rightarrow> (byte list option \<times> string \<times> int \<times> int \<times> string \<times> bool \<times> f64) list \<Rightarrow>
   error + BandStats option list" where
  "STRasterSummaryStatsFunction cbs args = for_each_row (STRasterSummaryStats_row cbs) args"

text \<open>\<^verbatim>\<open>STRasterSummaryStatsSimpleFunction\<close>, five arguments: no nodata filtering.\<close>

definition STRasterSummaryStatsSimple_try ::
  "stats_fn \<Rightarrow> byte list \<Rightarrow> string \<Rightarrow> int \<Rightarrow> int \<Rightarrow> string \<Rightarrow> error + BandStats" where
  "STRasterSummaryStatsSimple_try cbs band dtype width height compr =
     (let compressed = (compr = ''gzip'')
      in cbs (Ptr band) (length band) dtype width height compressed False (Fin 0))"

definition STRasterSummaryStatsSimple_row ::
  "stats_fn \<Rightarrow> byte list option \<times> string \<times> int \<times> int \<times> string \<Rightarrow> error + BandStats option" where
  "STRasterSummaryStatsSimple_row cbs =
     (\<lambda>(band_opt, dtype, width, height, compr).
        case band_opt of
          None \<Rightarrow> Inr None
        | Some band \<Rightarrow>
            if length band = 0 then Inr None
            else catch_to_null (STRasterSummaryStatsSimple_try cbs band dtype width height compr))"

definition STRasterSummaryStatsSimpleFunction ::
  "stats_fn \<Rightarrow> (byte list option \<times> string \<times> int \<times> int \<times> string) list \<Rightarrow>
   error + BandStats option list" where
  "STRasterSummaryStatsSimpleFunction cbs args =
     for_each_row (STRasterSummaryStatsSimple_row cbs) args"

text \<open>
  The metadata-aware functions read \<^verbatim>\<open>meta.band_info\<close>, a member that the
  \<^verbatim>\<open>RaquetMetadata\<close> of the sources does not declare and \<^verbatim>\<open>parse_metadata\<close> does not
  fill. The model takes it as the parameter \<open>band_info_of\<close>, a function of the
  metadata string.
\<close>

record BandInfo =
  has_nodata :: bool
  nodata :: f64

text \<open>\<^verbatim>\<open>STRasterSummaryStatsMetadataFunction\<close>, two arguments.\<close>

definition STRasterSummaryStatsMetadata_try ::
  "stats_fn \<Rightarrow> (string \<Rightarrow> BandInfo list) \<Rightarrow> byte list \<Rightarrow> string \<Rightarrow> error + BandStats" where
  "STRasterSummaryStatsMetadata_try cbs band_info_of band metadata =
     and_then (parse_metadata metadata) (\<lambda>meta.
       (let band_info = band_info_of metadata;
            dtype = (if bands meta = [] then ''uint8'' else snd (bands meta ! 0));
            compressed = (compression meta = ''gzip'');
            has_nd = (band_info \<noteq> [] \<and> has_nodata (band_info ! 0));
            nd = (if has_nd then nodata (band_info ! 0) else Fin 0)
        in cbs (Ptr band) (length band) dtype (block_width meta) (block_height meta)
             compressed has_nd nd))"

definition STRasterSummaryStatsMetadata_row ::
  "stats_fn \<Rightarrow> (string \<Rightarrow> BandInfo list) \<Rightarrow> byte list option \<times> string \<Rightarrow>
   error + BandStats option" where
  "STRasterSummaryStatsMetadata_row cbs band_info_of =
     (\<lambda>(band_opt, metadata).
        case band_opt of
          None \<Rightarrow> Inr None
        | Some band \<Rightarrow>
            if length band = 0 then Inr None
            else catch_to_null (STRasterSummaryStatsMetadata_try cbs band_info_of band metadata))"

definition STRasterSummaryStatsMetadataFunction ::
  "stats_fn \<Rightarrow> (string \<Rightarrow> BandInfo list) \<Rightarrow> (byte list option \<times> string) list \<Rightarrow>
   error + BandStats option list" where
  "STRasterSummaryStatsMetadataFunction cbs band_info_of args =
     for_each_row (STRasterSummaryStatsMetadata_row cbs band_info_of) args"

text \<open>
  \<^verbatim>\<open>STRasterSummaryStatsMetadataBandFunction\<close>, three arguments. The call of
  \<^verbatim>\<open>get_band_type\<close> is inside the \<^verbatim>\<open>try\<close> block.
\<close>

definition STRasterSummaryStatsMetadataBand_try ::
  "stats_fn \<Rightarrow> (string \<Rightarrow> BandInfo list) \<Rightarrow> byte list \<Rightarrow> string \<Rightarrow> int \<Rightarrow> error + BandStats" where
  "STRasterSummaryStatsMetadataBand_try cbs band_info_of band metadata band_idx =
     and_then (parse_metadata metadata) (\<lambda>meta.
     and_then (get_band_type meta band_idx) (\<lambda>dtype.
       (let band_info = band_info_of metadata;
            compressed = (compression meta = ''gzip'');
            has_nd = (band_idx < int (length band_info) \<and> has_nodata (band_info ! nat band_idx));
            nd = (if has_nd then nodata (band_info ! nat band_idx) else Fin 0)
        in cbs (Ptr band) (length band) dtype (block_width meta) (block_height meta)
             compressed has_nd nd)))"

definition STRasterSummaryStatsMetadataBand_row ::
  "stats_fn \<Rightarrow> (string \<Rightarrow> BandInfo list) \<Rightarrow> byte list option \<times> string \<times> int \<Rightarrow>
   error + BandStats option" where
  "STRasterSummaryStatsMetadataBand_row cbs band_info_of =
     (\<lambda>(band_opt, metadata, band_idx).
        case band_opt of
          None \<Rightarrow> Inr None
        | Some band \<Rightarrow>
            if length band = 0 \<or> band_idx < 0 then Inr None
            else catch_to_null
                   (STRasterSummaryStatsMetadataBand_try cbs band_info_of band metadata band_idx))"

definition STRasterSummaryStatsMetadataBandFunction ::
  "stats_fn \<Rightarrow> (string \<Rightarrow> BandInfo list) \<Rightarrow> (byte list option \<times> string \<times> int) list \<Rightarrow>
   error + BandStats option list" where
  "STRasterSummaryStatsMetadataBandFunction cbs band_info_of args =
     for_each_row (STRasterSummaryStatsMetadataBand_row cbs band_info_of) args"

section \<open>Concrete inputs for the examples\<close>

text \<open>
  A codec for the examples: a stream of \<open>n\<close> bytes expands to \<open>n\<close> blocks of 65536 zero
  bytes. A pass that lacks the output space fills what it has and reports
  \<^verbatim>\<open>Z_BUF_ERROR\<close>; a stream that starts with the byte 255 is corrupt.
\<close>

definition example_expand :: "byte list \<Rightarrow> byte list" where
  "example_expand input = replicate (65536 * length input) 0"

definition example_inflate :: "byte list \<Rightarrow> nat \<Rightarrow> int \<times> byte list" where
  "example_inflate input space =
     (if take 1 input = [255] then (Z_DATA_ERROR, [])
      else if length (example_expand input) \<le> space
      then (Z_STREAM_END, example_expand input)
      else (Z_BUF_ERROR, take space (example_expand input)))"

definition example_init :: "nat \<Rightarrow> int" where
  "example_init k = Z_OK"

definition example_zlib :: zlib where
  "example_zlib = \<lparr> inflateInit2 = example_init, inflate = example_inflate \<rparr>"

text \<open>
  A reader for the examples of the statistics: the registry's value, and not-a-number
  for a sample that the buffer does not hold.
\<close>

definition example_reader :: "buffer_ptr \<Rightarrow> nat \<Rightarrow> BandDataType \<Rightarrow> f64" where
  "example_reader data offset dtype =
     (case get_pixel_value data offset dtype of None \<Rightarrow> NaN | Some v \<Rightarrow> v)"

definition example_stats :: stats_fn where
  "example_stats = compute_band_stats parse_dtype example_reader example_zlib"

text \<open>Metadata whose bands declare no nodata value.\<close>

definition no_band_info :: "string \<Rightarrow> BandInfo list" where
  "no_band_info metadata = []"

section \<open>Properties of the descriptor parser\<close>

text \<open>
  Positions returned by the searches lie inside the string, so no call of \<^verbatim>\<open>substr\<close>
  in the parser is out of range, and the exceptions of \<^verbatim>\<open>std::stoi\<close> are caught:
  every function of the parser returns.
\<close>

lemma starts_with_length: "starts_with needle s \<Longrightarrow> length needle \<le> length s"
  by (induction needle arbitrary: s) (auto split: list.splits)

lemma find_sub_bound: "find_sub needle s = Some i \<Longrightarrow> i + length needle \<le> length s"
proof (induction s arbitrary: i)
  case Nil
  then show ?case by (simp split: if_splits)
next
  case (Cons c cs)
  show ?case
  proof (cases "starts_with needle (c # cs)")
    case True
    with Cons.prems starts_with_length [OF True] show ?thesis by simp
  next
    case False
    with Cons.prems obtain j where "find_sub needle cs = Some j" "i = Suc j"
      by auto
    with Cons.IH [of j] show ?thesis by simp
  qed
qed

lemma str_find_bound: "str_find s needle pos = Some p \<Longrightarrow> p + length needle \<le> length s"
  by (auto simp: str_find_def split: if_splits dest!: find_sub_bound)

lemma chr_find_bound: "chr_find s c pos = Some e \<Longrightarrow> pos \<le> e \<and> e < length s"
proof -
  assume a: "chr_find s c pos = Some e"
  let ?r = "drop pos s"
  let ?t = "takeWhile (\<lambda>d. d \<noteq> c) ?r"
  from a have mem: "c \<in> set ?r" and e: "e = pos + length ?t"
    by (auto simp: chr_find_def split: if_splits)
  from mem have "?t \<noteq> ?r" by auto
  moreover have "length ?t \<le> length ?r" by (rule length_takeWhile_le)
  ultimately have "length ?t < length ?r"
    by (metis le_neq_implies_less takeWhile_eq_take take_all_iff order_refl)
  with e show ?thesis by auto
qed

lemma skip_blank_bound: "pos \<le> length json \<Longrightarrow> pos \<le> skip_blank json pos \<and> skip_blank json pos \<le> length json"
proof (induction json pos rule: skip_blank.induct)
  case (1 json pos)
  then show ?case by (subst (1 2) skip_blank.simps) auto
qed


lemma substr_in_range: "pos \<le> length s \<Longrightarrow> substr s pos n = Inr (take n (drop pos s))"
  by (simp add: substr_def)

lemma extract_json_string_total: "\<exists>v. extract_json_string json key = Inr v"
proof (cases "str_find json (search_key key) 0")
  case None
  then show ?thesis by (simp add: extract_json_string_def)
next
  case (Some p)
  let ?pos = "skip_blank json (p + length (search_key key))"
  from str_find_bound [OF Some] have "p + length (search_key key) \<le> length json" .
  then have pos: "?pos \<le> length json" using skip_blank_bound by blast
  show ?thesis
  proof (cases "length json \<le> ?pos")
    case True
    with Some show ?thesis by (simp add: extract_json_string_def Let_def)
  next
    case False
    then have "Suc ?pos \<le> length json" by simp
    then have "\<And>n. substr json (Suc ?pos) n = Inr (take n (drop (Suc ?pos) json))"
      by (rule substr_in_range)
    moreover from pos have "\<And>n. substr json ?pos n = Inr (take n (drop ?pos json))"
      by (rule substr_in_range)
    ultimately show ?thesis using Some False
      by (simp add: extract_json_string_def Let_def split: option.splits)
  qed
qed

lemma extract_json_int_total: "\<exists>n. extract_json_int json key d = Inr n"
proof -
  obtain v where "extract_json_string json key = Inr v"
    using extract_json_string_total by blast
  then show ?thesis by (simp add: extract_json_int_def split: sum.splits)
qed


lemma parse_bands_loop_total: "\<exists>bs. parse_bands_loop bands_str pos acc = Inr bs"
proof (induction bands_str pos acc rule: parse_bands_loop.induct)
  case (1 bands_str pos acc)
  show ?case
  proof (cases "pos < length bands_str")
    case False
    then show ?thesis by (subst parse_bands_loop.simps) simp
  next
    case True
    show ?thesis
    proof (cases "chr_find bands_str (CHR ''{'') pos")
      case None
      with True show ?thesis by (subst parse_bands_loop.simps) simp
    next
      case (Some obj_start)
      note s1 = this
      show ?thesis
      proof (cases "chr_find bands_str (CHR ''}'') obj_start")
        case None
        with True s1 show ?thesis by (subst parse_bands_loop.simps) simp
      next
        case (Some obj_end)
        note s2 = this
        from chr_find_bound [OF s1] have "obj_start \<le> length bands_str" by simp
        then have sub: "substr bands_str obj_start (obj_end - obj_start + 1)
            = Inr (take (obj_end - obj_start + 1) (drop obj_start bands_str))"
          by (rule substr_in_range)
        let ?obj = "take (obj_end - obj_start + 1) (drop obj_start bands_str)"
        obtain name where n: "extract_json_string ?obj ''name'' = Inr name"
          using extract_json_string_total by blast
        obtain type where t: "extract_json_string ?obj ''type'' = Inr type"
          using extract_json_string_total by blast
        from "1.IH" [OF True s1 s2 sub n t]
        show ?thesis
          using True s1 s2 sub n t by (subst parse_bands_loop.simps) simp
      qed
    qed
  qed
qed

lemma parse_bands_total: "\<exists>bs. parse_bands json = Inr bs"
proof -
  have "\<And>a n. chr_find json (CHR ''['') a = Some n \<Longrightarrow>
      substr json (n + 1) m = Inr (take m (drop (n + 1) json))" for m
    by (rule substr_in_range) (auto dest: chr_find_bound)
  then show ?thesis
    using parse_bands_loop_total
    by (auto simp: parse_bands_def split: option.splits)
qed


text \<open>
  A key that does not occur gives the empty string, and an integer field whose string is
  empty or does not parse takes its default. A non-empty tiling object in which the scheme
  does not occur leaves the scheme empty.
\<close>

lemma extract_json_string_absent:
  "str_find json (search_key key) 0 = None \<Longrightarrow> extract_json_string json key = Inr []"
  by (simp add: extract_json_string_def)

lemma extract_json_int_default:
  assumes "extract_json_string json key = Inr v" and "v = [] \<or> isl (stoi v)"
  shows "extract_json_int json key d = Inr d"
  using assms by (auto simp: extract_json_int_def split: sum.splits)

lemma parse_metadata_scheme_from_tiling:
  assumes "extract_json_object json ''tiling'' = Inr tiling" and "tiling \<noteq> []"
    and "str_find tiling (search_key ''scheme'') 0 = None"
  shows "\<exists>meta. parse_metadata json = Inr meta \<and> scheme meta = []"
proof -
  obtain c0 where c0: "extract_json_string json ''compression'' = Inr c0"
    using extract_json_string_total by blast
  obtain crs0 where crs0: "extract_json_string json ''crs'' = Inr crs0"
    using extract_json_string_total by blast
  obtain bs where bs: "parse_bands json = Inr bs"
    using parse_bands_total by blast
  obtain minz where minz: "extract_json_int tiling ''min_zoom'' 0 = Inr minz"
    using extract_json_int_total by blast
  obtain maxz where maxz: "extract_json_int tiling ''max_zoom'' 26 = Inr maxz"
    using extract_json_int_total by blast
  obtain pixz where pixz: "extract_json_int tiling ''pixel_zoom'' 0 = Inr pixz"
    using extract_json_int_total by blast
  obtain nb where nb: "extract_json_int tiling ''num_blocks'' 0 = Inr nb"
    using extract_json_int_total by blast
  obtain bw where bw: "extract_json_int tiling ''block_width'' 256 = Inr bw"
    using extract_json_int_total by blast
  obtain bh where bh: "extract_json_int tiling ''block_height'' 256 = Inr bh"
    using extract_json_int_total by blast
  have sch: "extract_json_string tiling ''scheme'' = Inr []"
    using assms(3) by (rule extract_json_string_absent)
  show ?thesis
    using assms(1,2)
    by (simp add: parse_metadata_def and_then_def c0 crs0 bs minz maxz pixz nb bw bh sch)
qed

text \<open>
  Claim C8. Applied to the descriptor of the specification's example, the parser returns
  (without an exception) metadata with compression \<^verbatim>\<open>gzip\<close>, block width 512, block height
  512, maximal zoom 10 and the band list that holds the one pair of \<^verbatim>\<open>elevation\<close> and
  \<^verbatim>\<open>float32\<close>. The remaining fields are listed as well.
\<close>

theorem parse_metadata_example:
  \<open>parse_metadata
     ''{"compression":"gzip","tiling":{"min_zoom":0,"max_zoom":10,"block_width":512,"block_height":512,"scheme":"quadbin"},"crs":"EPSG:3857","bands":[{"name":"elevation","type":"float32"}]}''
   = Inr \<lparr> compression = ''gzip'', block_width = 512, block_height = 512,
           min_zoom = 0, max_zoom = 10, pixel_zoom = 0, num_blocks = 0,
           scheme = ''quadbin'', crs = ''EPSG:3857'',
           bands = [(''elevation'', ''float32'')] \<rparr>\<close>
  by code_simp

text \<open>
  Claim C5, at the input where the code departs from it. The descriptor holds a tiling
  object without a scheme. The parser returns, and every field but one has its documented
  default or the value given; the scheme is the empty string, not \<^verbatim>\<open>quadbin\<close>: the
  branch for a tiling object assigns the extracted string and has no fallback, unlike the
  branch without a tiling object and unlike the compression field.
\<close>

theorem parse_metadata_scheme_not_defaulted:
  \<open>parse_metadata ''{"tiling":{"min_zoom":3}}''
   = Inr \<lparr> compression = ''none'', block_width = 256, block_height = 256,
           min_zoom = 3, max_zoom = 26, pixel_zoom = 0, num_blocks = 0,
           scheme = [], crs = [], bands = [] \<rparr>\<close>
  by code_simp

text \<open>
  The scalar string extraction of the parser follows the scalar string rule, with the space
  and the tab as white space and a quoted string that ends at the next double quote: the
  positions it computes are the lengths of the prefixes that the rule takes or drops.
\<close>

lemma skip_blank_takeWhile:
  "pos \<le> length json \<Longrightarrow> skip_blank json pos = pos + length (takeWhile blank (drop pos json))"
proof (induction json pos rule: skip_blank.induct)
  case (1 json pos)
  show ?case
  proof (cases "pos < length json")
    case False
    with "1.prems" show ?thesis by (subst skip_blank.simps) simp
  next
    case True
    then have d: "drop pos json = json ! pos # drop (Suc pos) json"
      by (simp add: Cons_nth_drop_Suc)
    show ?thesis
    proof (cases "blank (json ! pos)")
      case False
      then have "\<not> (json ! pos = CHR '' '' \<or> json ! pos = tab)"
        by (simp add: blank_def)
      with True have "skip_blank json pos = pos"
        by (subst skip_blank.simps) simp
      with d False show ?thesis by simp
    next
      case b: True
      then have c: "json ! pos = CHR '' '' \<or> json ! pos = tab"
        by (simp add: blank_def)
      with True have "skip_blank json pos = skip_blank json (Suc pos)"
        by (subst skip_blank.simps) simp
      also have "\<dots> = Suc pos + length (takeWhile blank (drop (Suc pos) json))"
        using True c by (intro "1.IH") simp_all
      finally show ?thesis using d b by simp
    qed
  qed
qed

lemma scan_value_takeWhile:
  "pos \<le> length json \<Longrightarrow>
     scan_value json pos = pos + length (takeWhile (\<lambda>d. \<not> token_end d) (drop pos json))"
proof (induction json pos rule: scan_value.induct)
  case (1 json pos)
  show ?case
  proof (cases "pos < length json")
    case False
    with "1.prems" show ?thesis by (subst scan_value.simps) simp
  next
    case True
    then have d: "drop pos json = json ! pos # drop (Suc pos) json"
      by (simp add: Cons_nth_drop_Suc)
    show ?thesis
    proof (cases "token_end (json ! pos)")
      case e: True
      then have "\<not> (json ! pos \<noteq> CHR '','' \<and> json ! pos \<noteq> CHR ''}''
          \<and> json ! pos \<noteq> CHR '']'')"
        by (simp add: token_end_def)
      then have "scan_value json pos = pos"
        by (subst scan_value.simps) auto
      with d e show ?thesis by simp
    next
      case False
      then have c: "json ! pos \<noteq> CHR '','' \<and> json ! pos \<noteq> CHR ''}''
          \<and> json ! pos \<noteq> CHR '']''"
        by (simp add: token_end_def)
      with True have "scan_value json pos = scan_value json (Suc pos)"
        by (subst scan_value.simps) simp
      also have "\<dots> = Suc pos
          + length (takeWhile (\<lambda>d. \<not> token_end d) (drop (Suc pos) json))"
        using True c by (intro "1.IH") simp_all
      finally show ?thesis using d False by simp
    qed
  qed
qed

lemma trim_back_trailing: "trim_back val = trim_trailing blank val"
proof (induction val rule: trim_back.induct)
  case (1 val)
  show ?case
  proof (cases "val \<noteq> [] \<and> blank (last val)")
    case False
    then have "\<not> (val \<noteq> [] \<and> (last val = CHR '' '' \<or> last val = tab))"
      by (simp add: blank_def)
    then have "trim_back val = val"
      by (subst trim_back.simps) auto
    moreover from False have "trim_trailing blank val = val"
      by (cases val rule: rev_cases) (auto simp: trim_trailing_def)
    ultimately show ?thesis by simp
  next
    case True
    then obtain xs x where v: "val = xs @ [x]" "blank x"
      by (cases val rule: rev_cases) auto
    from True have c: "val \<noteq> [] \<and> (last val = CHR '' '' \<or> last val = tab)"
      by (simp add: blank_def)
    then have "trim_back val = trim_back (butlast val)"
      by (subst trim_back.simps) simp
    also have "\<dots> = trim_trailing blank (butlast val)"
      using c by (intro "1.IH") simp
    also have "\<dots> = trim_trailing blank val"
      using v by (simp add: trim_trailing_def)
    finally show ?thesis .
  qed
qed

lemma str_find_0 [simp]: "str_find s needle 0 = find_sub needle s"
  by (cases "find_sub needle s") (simp_all add: str_find_def)

lemma extract_json_string_spec:
  "extract_json_string json key = Inr (scalar_string_spec blank quoted_upto_first json key)"
proof (cases "find_sub (search_key key) json")
  case None
  then show ?thesis by (simp add: extract_json_string_def scalar_string_spec_def)
next
  case (Some p)
  define start where "start = p + length (search_key key)"
  define pos where "pos = skip_blank json start"
  have start: "start \<le> length json"
    using find_sub_bound [OF Some] by (simp add: start_def)
  have pos: "pos = start + length (takeWhile blank (drop start json))"
    unfolding pos_def using start by (rule skip_blank_takeWhile)
  have rest: "drop pos json = dropWhile blank (drop start json)"
    unfolding pos
    by (simp add: add.commute [of start] drop_drop [symmetric] dropWhile_eq_drop [symmetric]
        del: drop_drop)
  show ?thesis
  proof (cases "dropWhile blank (drop start json)")
    case Nil
    with rest have "length json \<le> pos" by simp
    with Some have "extract_json_string json key = Inr []"
      by (simp add: extract_json_string_def Let_def start_def [symmetric] pos_def [symmetric])
    moreover have "scalar_string_spec blank quoted_upto_first json key = []"
      by (simp add: scalar_string_spec_def Some start_def [symmetric] Nil)
    ultimately show ?thesis by simp
  next
    case (Cons c cs)
    with rest have lt: "pos < length json" and d: "drop pos json = c # cs"
      by (auto simp: not_le [symmetric])
    from d lt have c: "json ! pos = c" and cs: "drop (Suc pos) json = cs"
      by (simp_all add: Cons_nth_drop_Suc [symmetric])
    show ?thesis
    proof (cases "c = dquote")
      case True
      have q: "chr_find json dquote (Suc pos) =
          map_option (\<lambda>v. Suc pos + length v) (quoted_upto_first cs)"
        by (simp add: chr_find_def quoted_upto_first_def cs)
      have sub: "dquote \<in> set cs \<Longrightarrow>
          substr json (Suc pos) (length (takeWhile (\<lambda>c. c \<noteq> dquote) cs))
            = Inr (takeWhile (\<lambda>c. c \<noteq> dquote) cs)"
        using lt by (simp add: substr_def cs takeWhile_eq_take [symmetric])
      have spec: "scalar_string_spec blank quoted_upto_first json key =
          (case quoted_upto_first cs of None \<Rightarrow> [] | Some v \<Rightarrow> v)"
        by (simp add: scalar_string_spec_def Some start_def [symmetric] Cons True)
      from Some True lt c q sub show ?thesis
        unfolding spec
        by (auto simp: extract_json_string_def Let_def
            start_def [symmetric] pos_def [symmetric] quoted_upto_first_def)
    next
      case False
      have e: "scan_value json pos - pos = length (takeWhile (\<lambda>d. \<not> token_end d) (c # cs))"
        using scan_value_takeWhile [of pos json] lt d by simp
      have sub: "substr json pos (scan_value json pos - pos)
          = Inr (takeWhile (\<lambda>d. \<not> token_end d) (c # cs))"
        unfolding e using lt
        by (simp add: substr_def d takeWhile_eq_take [symmetric] del: takeWhile.simps)
      have spec: "scalar_string_spec blank quoted_upto_first json key =
          trim_trailing blank (takeWhile (\<lambda>d. \<not> token_end d) (c # cs))"
        by (simp add: scalar_string_spec_def Some start_def [symmetric] Cons False
            del: takeWhile.simps)
      from Some False lt c sub show ?thesis
        unfolding spec
        by (simp add: extract_json_string_def Let_def
            start_def [symmetric] pos_def [symmetric] trim_back_trailing
            del: takeWhile.simps)
    qed
  qed
qed

text \<open>
  The loop of \<^verbatim>\<open>parse_bands\<close>, which works with positions in \<^verbatim>\<open>bands_str\<close>, produces
  the entries of the objects that \<open>band_objects_spec\<close> finds in the rest of the text.
\<close>

lemma drop_to_first:
  "drop (pos + length (takeWhile P (drop pos s))) s = dropWhile P (drop pos s)"
proof -
  have "drop (pos + length (takeWhile P (drop pos s))) s
      = drop (length (takeWhile P (drop pos s))) (drop pos s)"
    by (simp add: add.commute)
  also have "\<dots> = dropWhile P (drop pos s)"
    by (rule dropWhile_eq_drop [symmetric])
  finally show ?thesis .
qed

lemma take_through_first:
  assumes "c \<in> set r"
  shows "take (Suc (length (takeWhile (\<lambda>d. d \<noteq> c) r))) r = takeWhile (\<lambda>d. d \<noteq> c) r @ [c]"
proof -
  let ?t = "takeWhile (\<lambda>d. d \<noteq> c) r" and ?d = "dropWhile (\<lambda>d. d \<noteq> c) r"
  from assms have "?d \<noteq> []" by auto
  then obtain x xs where d: "?d = x # xs" by (cases ?d) auto
  then have "x = c" using hd_dropWhile [of "\<lambda>d. d \<noteq> c" r] by auto
  have "take (Suc (length ?t)) (?t @ ?d) = ?t @ take (Suc 0) ?d"
    by (simp del: takeWhile_dropWhile_id)
  then have "take (Suc (length ?t)) r = ?t @ take (Suc 0) ?d" by simp
  also have "\<dots> = ?t @ [c]" using d \<open>x = c\<close> by simp
  finally show ?thesis .
qed

lemma drop_past_first:
  "drop (Suc (length (takeWhile P r))) r = tl (dropWhile P r)"
proof -
  have "drop (Suc (length (takeWhile P r))) r = drop (Suc 0) (drop (length (takeWhile P r)) r)"
    by simp
  also have "\<dots> = tl (dropWhile P r)"
    by (simp add: dropWhile_eq_drop [symmetric] drop_Suc)
  finally show ?thesis .
qed

lemma complete_entry_pair: "complete_entry (a, b) = (a \<noteq> [] \<and> b \<noteq> [])"
  by (simp add: complete_entry_def)

lemma parse_bands_loop_objects:
  "parse_bands_loop s pos acc =
     Inr (acc @ filter complete_entry (map (band_entry_spec blank quoted_upto_first) (band_objects_spec (drop pos s))))"
proof (induction s pos acc rule: parse_bands_loop.induct)
  case (1 s pos acc)
  let ?open = "\<lambda>d. d \<noteq> CHR ''{''" and ?close = "\<lambda>d. d \<noteq> CHR ''}''"
  let ?r = "dropWhile ?open (drop pos s)"
  show ?case
  proof (cases "pos < length s \<and> CHR ''{'' \<in> set (drop pos s) \<and> CHR ''}'' \<in> set ?r")
    case False
    have r: "drop (pos + length (takeWhile ?open (drop pos s))) s = ?r"
      by (rule drop_to_first)
    from False have "band_objects_spec (drop pos s) = []"
      by (subst band_objects_spec.simps) auto
    moreover from False r have "parse_bands_loop s pos acc = Inr acc"
      by (subst parse_bands_loop.simps) (auto simp: chr_find_def)
    ultimately show ?thesis by simp
  next
    case True
    define obj_start where "obj_start = pos + length (takeWhile ?open (drop pos s))"
    define obj_end where "obj_end = obj_start + length (takeWhile ?close ?r)"
    have r: "drop obj_start s = ?r"
      unfolding obj_start_def by (rule drop_to_first)
    from True have s1: "chr_find s (CHR ''{'') pos = Some obj_start"
      by (simp add: chr_find_def obj_start_def)
    from True r have s2: "chr_find s (CHR ''}'') obj_start = Some obj_end"
      by (simp add: chr_find_def obj_end_def)
    let ?obj = "before_first (CHR ''}'') ?r @ ''}''"
    let ?f = "scalar_string_spec blank quoted_upto_first"
    have "obj_start \<le> length s"
      using chr_find_bound [OF s1] by simp
    then have "substr s obj_start (obj_end - obj_start + 1)
        = Inr (take (Suc (length (takeWhile ?close ?r))) ?r)"
      by (simp add: substr_def obj_end_def r)
    also have "take (Suc (length (takeWhile ?close ?r))) ?r = ?obj"
      using True by (simp add: take_through_first before_first_def)
    finally have sub: "substr s obj_start (obj_end - obj_start + 1) = Inr ?obj" .
    have rest: "drop (obj_end + 1) s = after_first (CHR ''}'') ?r"
    proof -
      have "drop (obj_end + 1) s = drop (Suc (length (takeWhile ?close ?r))) (drop obj_start s)"
        by (simp add: obj_end_def add.commute)
      also have "\<dots> = tl (dropWhile ?close ?r)"
        by (simp only: r drop_past_first)
      finally show ?thesis by (simp add: after_first_def)
    qed
    let ?acc' = "if ?f ?obj ''name'' \<noteq> [] \<and> ?f ?obj ''type'' \<noteq> []
                 then acc @ [(?f ?obj ''name'', ?f ?obj ''type'')] else acc"
    from True have lt: "pos < length s" by simp
    have ih: "parse_bands_loop s (obj_end + 1) ?acc' =
        Inr (?acc' @ filter complete_entry
               (map (band_entry_spec blank quoted_upto_first) (band_objects_spec (drop (obj_end + 1) s))))"
      by (rule "1.IH" [OF lt s1 s2 sub extract_json_string_spec extract_json_string_spec])
    have step: "parse_bands_loop s pos acc = parse_bands_loop s (obj_end + 1) ?acc'"
      using lt s1 s2 sub by (subst parse_bands_loop.simps) (simp add: extract_json_string_spec)
    have objs: "band_objects_spec (drop pos s) = ?obj # band_objects_spec (after_first (CHR ''}'') ?r)"
      using True by (subst band_objects_spec.simps) simp
    have entry: "filter complete_entry (map (band_entry_spec blank quoted_upto_first) (?obj # objs)) =
        (if ?f ?obj ''name'' \<noteq> [] \<and> ?f ?obj ''type'' \<noteq> []
         then [(?f ?obj ''name'', ?f ?obj ''type'')] else [])
        @ filter complete_entry (map (band_entry_spec blank quoted_upto_first) objs)" for objs
      by (simp add: complete_entry_pair band_entry_spec_def [of _ _ ?obj])
    show ?thesis
      unfolding step ih objs rest entry by simp
  qed
qed

text \<open>
  Claim C9, as amended. For every descriptor string, \<^verbatim>\<open>parse_bands\<close> returns (without an
  exception) the band list of the description above: the span between the first \<^verbatim>\<open>[\<close>
  after the first occurrence of the key and the first \<^verbatim>\<open>]\<close> after it, cut into objects
  that each end at the first \<^verbatim>\<open>}\<close>, each object read for its name and type by the scalar
  string rule in which white space is the space and the tab only and a quoted string ends
  at the next double quote whether a backslash stands before it or not, the entries with
  an empty name or type dropped, the others in order.
\<close>

theorem parse_bands_is_band_list_first_quote:
  "parse_bands json = Inr (band_list_spec blank quoted_upto_first json)"
proof (cases "find_sub (search_key ''bands'') json")
  case None
  then show ?thesis by (simp add: parse_bands_def band_list_spec_def bands_span_spec_def)
next
  case (Some k)
  let ?lb = "\<lambda>d. d \<noteq> CHR ''[''" and ?rb = "\<lambda>d. d \<noteq> CHR '']''"
  let ?inner = "after_first (CHR ''['') (drop k json)"
  show ?thesis
  proof (cases "CHR ''['' \<in> set (drop k json) \<and> CHR '']'' \<in> set ?inner")
    case False
    have r: "drop (k + length (takeWhile ?lb (drop k json))) json = dropWhile ?lb (drop k json)"
      by (rule drop_to_first)
    have "CHR ''['' \<in> set (drop k json) \<Longrightarrow>
        CHR '']'' \<in> set (dropWhile ?lb (drop k json)) \<Longrightarrow> CHR '']'' \<in> set ?inner"
    proof -
      assume a: "CHR ''['' \<in> set (drop k json)" "CHR '']'' \<in> set (dropWhile ?lb (drop k json))"
      then obtain x xs where d: "dropWhile ?lb (drop k json) = x # xs"
        by (cases "dropWhile ?lb (drop k json)") auto
      then have "x = CHR ''[''" using hd_dropWhile [of ?lb "drop k json"] by auto
      with a d show ?thesis by (auto simp: after_first_def)
    qed
    with False r Some show ?thesis
      by (auto simp: parse_bands_def band_list_spec_def bands_span_spec_def chr_find_def)
  next
    case True
    define arr_start where "arr_start = k + length (takeWhile ?lb (drop k json))"
    have r: "drop arr_start json = dropWhile ?lb (drop k json)"
      unfolding arr_start_def by (rule drop_to_first)
    from True obtain xs where d: "dropWhile ?lb (drop k json) = CHR ''['' # xs"
      using hd_dropWhile [of ?lb "drop k json"]
      by (cases "dropWhile ?lb (drop k json)") auto
    then have inner: "?inner = xs" by (simp add: after_first_def)
    define arr_end where "arr_end = arr_start + length (takeWhile ?rb (drop arr_start json))"
    from True have s1: "chr_find json (CHR ''['') k = Some arr_start"
      by (simp add: chr_find_def arr_start_def)
    from True r d inner have s2: "chr_find json (CHR '']'') arr_start = Some arr_end"
      by (simp add: chr_find_def arr_end_def)
    have len: "arr_end - arr_start - 1 = length (takeWhile ?rb xs)"
      by (simp add: arr_end_def r d)
    have lt: "arr_start < length json" using chr_find_bound [OF s1] by simp
    have dr: "drop (arr_start + 1) json = xs"
      using r d by (metis Suc_eq_plus1 drop_Suc list.sel(3) tl_drop)
    have tk: "take (length (takeWhile ?rb xs)) xs = takeWhile ?rb xs"
      by (rule takeWhile_eq_take [symmetric])
    have "substr json (arr_start + 1) (arr_end - arr_start - 1)
        = Inr (take (arr_end - arr_start - 1) (drop (arr_start + 1) json))"
      using lt by (intro substr_in_range) simp
    also have "\<dots> = Inr (before_first (CHR '']'') ?inner)"
      unfolding len dr tk inner by (simp add: before_first_def)
    finally have sub: "substr json (arr_start + 1) (arr_end - arr_start - 1)
        = Inr (before_first (CHR '']'') ?inner)" .
    from True have "bands_span_spec json = Some (before_first (CHR '']'') ?inner)"
      by (simp add: bands_span_spec_def Some)
    then show ?thesis
      using Some s1 s2 sub
      by (simp add: parse_bands_def band_list_spec_def parse_bands_loop_objects)
  qed
qed

text \<open>
  An instance: a descriptor with three objects, the second without a type, the third with
  an unquoted type followed by a space and with a backslash before the quote that ends its
  name. The list has the first and the third entry.
\<close>

theorem parse_bands_is_band_list_first_quote_witness:
  \<open>parse_bands (''{"bands": [{"name":"b1","type":"uint8"},{"name":"b2"},''
        @ ''{"type": float32 ,"name":"c'' @ [backslash] @ ''"}], "x":[]}'')
     = Inr [(''b1'', ''uint8''), (''c'' @ [backslash], ''float32'')]
   \<and> band_list_spec blank quoted_upto_first
       (''{"bands": [{"name":"b1","type":"uint8"},{"name":"b2"},''
        @ ''{"type": float32 ,"name":"c'' @ [backslash] @ ''"}], "x":[]}'')
     = [(''b1'', ''uint8''), (''c'' @ [backslash], ''float32'')]\<close>
proof -
  have e: \<open>band_list_spec blank quoted_upto_first
       (''{"bands": [{"name":"b1","type":"uint8"},{"name":"b2"},''
        @ ''{"type": float32 ,"name":"c'' @ [backslash] @ ''"}], "x":[]}'')
     = [(''b1'', ''uint8''), (''c'' @ [backslash], ''float32'')]\<close>
    by code_simp
  from parse_bands_is_band_list_first_quote
    [of \<open>''{"bands": [{"name":"b1","type":"uint8"},{"name":"b2"},''
        @ ''{"type": float32 ,"name":"c'' @ [backslash] @ ''"}], "x":[]}''\<close>] e
  show ?thesis by simp
qed

text \<open>
  Claim C9 as stated fails: the scalar string rule of the specification reads a quoted
  string up to the next unescaped quote and skips white space, whereas the parser stops at
  the first double quote and skips the space and the tab only. For a band whose quoted
  name is \<^verbatim>\<open>a\<close>, a backslash, a double quote and \<^verbatim>\<open>b\<close>, the parser returns the name made
  of \<^verbatim>\<open>a\<close> and the backslash, where the rule gives all four characters; for a name that
  follows a line break, the parser returns the unquoted token made of the line break and
  \<^verbatim>\<open>"a"\<close> with its quotes, where the rule gives \<^verbatim>\<open>a\<close>.
\<close>

theorem parse_bands_stated_rule_counterexample:
  \<open>parse_bands (''{"bands":[{"name":"a'' @ [backslash] @ ''"b","type":"t"}]}'')
     = Inr [(''a'' @ [backslash], ''t'')]
   \<and> band_list_spec isspace quoted_upto_unescaped
       (''{"bands":[{"name":"a'' @ [backslash] @ ''"b","type":"t"}]}'')
     = [(''a'' @ [backslash] @ ''"b'', ''t'')]
   \<and> parse_bands (''{"bands":[{"name":'' @ [newline] @ ''"a","type":"t"}]}'')
     = Inr [([newline] @ ''"a"'', ''t'')]
   \<and> band_list_spec isspace quoted_upto_unescaped
       (''{"bands":[{"name":'' @ [newline] @ ''"a","type":"t"}]}'')
     = [(''a'', ''t'')]\<close>
proof -
  have \<open>parse_bands (''{"bands":[{"name":"a'' @ [backslash] @ ''"b","type":"t"}]}'')
     = Inr [(''a'' @ [backslash], ''t'')]\<close>
    by code_simp
  moreover have \<open>band_list_spec isspace quoted_upto_unescaped
       (''{"bands":[{"name":"a'' @ [backslash] @ ''"b","type":"t"}]}'')
     = [(''a'' @ [backslash] @ ''"b'', ''t'')]\<close>
    by code_simp
  moreover have \<open>parse_bands (''{"bands":[{"name":'' @ [newline] @ ''"a","type":"t"}]}'')
     = Inr [([newline] @ ''"a"'', ''t'')]\<close>
    by code_simp
  moreover have \<open>band_list_spec isspace quoted_upto_unescaped
       (''{"bands":[{"name":'' @ [newline] @ ''"a","type":"t"}]}'')
     = [(''a'', ''t'')]\<close>
    by code_simp
  ultimately show ?thesis by blast
qed

section \<open>Properties of decompression and pixel decoding\<close>

lemma to_uInt_le: "to_uInt n \<le> n"
  by (simp add: to_uInt_def)

lemma length_inflate_pass [simp]: "length (snd (inflate_pass z input result)) = length result"
  using to_uInt_le [of "length result"] by (simp add: inflate_pass_def Let_def min_def)

lemma buffer_size_inflate_pass [simp]:
  "buffer_size (fst (inflate_pass z input result)) = length result"
  by (simp add: inflate_pass_def Let_def)

lemma out_space_inflate_pass [simp]:
  "out_space (fst (inflate_pass z input result)) = to_uInt (length result)"
  by (simp add: inflate_pass_def Let_def)

lemmas example_codec_defs =
  decompress_gzip_def example_zlib_def example_init_def example_inflate_def example_expand_def
  inflate_pass_def resize_def to_uInt_def to_size_t_def Let_def
  Z_OK_def Z_STREAM_END_def Z_BUF_ERROR_def Z_DATA_ERROR_def to_string_def

text \<open>
  Claim C6. With a declared size of 0, \<^verbatim>\<open>decompress_gzip\<close> returns the empty vector for
  every pointer, the null pointer included, and runs no pass of \<^verbatim>\<open>inflate\<close>. With the
  null pointer and a size other than 0 it throws (a \<^verbatim>\<open>std::runtime_error\<close>) before any
  pass is run, so nothing is read and nothing is returned.
\<close>

theorem decompress_gzip_empty_or_null:
  "decompress_gzip z data 0 = ([], Inr []) \<and>
   (sz \<noteq> 0 \<longrightarrow>
      decompress_gzip z NullPtr sz = ([], Inl (RuntimeError ''Null data pointer for decompression'')))"
  by (simp add: decompress_gzip_def)

theorem decompress_gzip_empty_or_null_witness:
  "decompress_gzip example_zlib NullPtr 0 = ([], Inr []) \<and>
   decompress_gzip example_zlib NullPtr 7 =
     ([], Inl (RuntimeError ''Null data pointer for decompression''))"
  using decompress_gzip_empty_or_null [of example_zlib NullPtr 7] by simp

text \<open>
  Claim C7. Let the size be other than 0, small enough that 200 times the size fits
  \<^verbatim>\<open>size_t\<close>, and let the first \<^verbatim>\<open>inflateInit2\<close> succeed, so that there is a first pass
  \<open>a1\<close>. At most one more pass follows it. When the first pass reports
  \<^verbatim>\<open>Z_BUF_ERROR\<close> with no output space left, the retry is set up: if its initialisation
  succeeds, exactly one further pass runs, over an output vector of 4 times the size of
  the first, and the call throws unless that pass reaches the end of the stream; if
  its initialisation fails, no further pass runs and the call throws. When the first pass
  ends in any other way, no further pass runs, and the call throws unless the pass reached
  the end of the stream. The output space that zlib is told of is the size of the vector
  cast to 32 bits: it is 4 times that of the first pass as well when 200 times the size
  is below \<open>2 ^ 32\<close>.
\<close>

theorem decompress_gzip_single_retry:
  assumes "sz \<noteq> 0" and "sz * 200 < 2 ^ 64" and "inflateInit2 z 0 = Z_OK"
  shows "\<exists>a1 rest. fst (decompress_gzip z (Ptr bs) sz) = a1 # rest \<and> length rest \<le> 1 \<and>
     (ret a1 = Z_BUF_ERROR \<and> avail_out a1 = 0 \<longrightarrow>
        (inflateInit2 z 1 = Z_OK \<longrightarrow>
           (\<exists>a2. rest = [a2] \<and> buffer_size a2 = 4 * buffer_size a1 \<and>
                 (sz * 200 < 2 ^ 32 \<longrightarrow> out_space a2 = 4 * out_space a1) \<and>
                 (ret a2 \<noteq> Z_STREAM_END \<longrightarrow>
                    (\<exists>msg. snd (decompress_gzip z (Ptr bs) sz) = Inl (RuntimeError msg))))) \<and>
        (inflateInit2 z 1 \<noteq> Z_OK \<longrightarrow>
           rest = [] \<and> (\<exists>msg. snd (decompress_gzip z (Ptr bs) sz) = Inl (RuntimeError msg)))) \<and>
     (\<not> (ret a1 = Z_BUF_ERROR \<and> avail_out a1 = 0) \<longrightarrow>
        rest = [] \<and>
        (ret a1 \<noteq> Z_STREAM_END \<longrightarrow>
           (\<exists>msg. snd (decompress_gzip z (Ptr bs) sz) = Inl (RuntimeError msg))))"
proof -
  define est where "est = (if 100 < sz then to_size_t (sz * 50) else 256 * 256)"
  have est4: "to_size_t (est * 4) = 4 * est"
    using assms(2) by (auto simp: est_def to_size_t_def)
  have space: "sz * 200 < 2 ^ 32 \<Longrightarrow> to_uInt (4 * est) = 4 * to_uInt est"
    by (auto simp: est_def to_size_t_def to_uInt_def)
  show ?thesis
    using assms(1,3) est4 space
    by (simp add: decompress_gzip_def Let_def est_def [symmetric] resize_def)
qed

theorem decompress_gzip_single_retry_witness:
  "decompress_gzip example_zlib (Ptr [1, 2]) 2 =
     ([\<lparr> buffer_size = 65536, out_space = 65536, ret = Z_BUF_ERROR, avail_out = 0 \<rparr>,
       \<lparr> buffer_size = 4 * 65536, out_space = 4 * 65536, ret = Z_STREAM_END,
         avail_out = 131072 \<rparr>],
      Inr (replicate 131072 0)) \<and>
   decompress_gzip example_zlib (Ptr [1, 2, 3, 4, 5]) 5 =
     ([\<lparr> buffer_size = 65536, out_space = 65536, ret = Z_BUF_ERROR, avail_out = 0 \<rparr>,
       \<lparr> buffer_size = 4 * 65536, out_space = 4 * 65536, ret = Z_BUF_ERROR, avail_out = 0 \<rparr>],
      Inl (RuntimeError ''inflate retry failed: -5'')) \<and>
   decompress_gzip example_zlib (Ptr [255]) 1 =
     ([\<lparr> buffer_size = 65536, out_space = 65536, ret = Z_DATA_ERROR, avail_out = 65536 \<rparr>],
      Inl (RuntimeError ''inflate failed: -3''))"
proof -
  have p: "2 \<noteq> (0::nat)" "5 \<noteq> (0::nat)" "1 \<noteq> (0::nat)"
    "(2::nat) * 200 < 2 ^ 64" "(5::nat) * 200 < 2 ^ 64" "(1::nat) * 200 < 2 ^ 64"
    "inflateInit2 example_zlib 0 = Z_OK"
    by (simp_all add: example_zlib_def example_init_def)
  note r = decompress_gzip_single_retry [OF p(1) p(4) p(7), of "[1, 2]"]
    decompress_gzip_single_retry [OF p(2) p(5) p(7), of "[1, 2, 3, 4, 5]"]
    decompress_gzip_single_retry [OF p(3) p(6) p(7), of "[255]"]
  have e: "decompress_gzip example_zlib (Ptr [1, 2]) 2 =
     ([\<lparr> buffer_size = 65536, out_space = 65536, ret = Z_BUF_ERROR, avail_out = 0 \<rparr>,
       \<lparr> buffer_size = 4 * 65536, out_space = 4 * 65536, ret = Z_STREAM_END,
         avail_out = 131072 \<rparr>],
      Inr (replicate 131072 0))"
    "decompress_gzip example_zlib (Ptr [1, 2, 3, 4, 5]) 5 =
     ([\<lparr> buffer_size = 65536, out_space = 65536, ret = Z_BUF_ERROR, avail_out = 0 \<rparr>,
       \<lparr> buffer_size = 4 * 65536, out_space = 4 * 65536, ret = Z_BUF_ERROR, avail_out = 0 \<rparr>],
      Inl (RuntimeError ''inflate retry failed: -5''))"
    "decompress_gzip example_zlib (Ptr [255]) 1 =
     ([\<lparr> buffer_size = 65536, out_space = 65536, ret = Z_DATA_ERROR, avail_out = 65536 \<rparr>],
      Inl (RuntimeError ''inflate failed: -3''))"
    by (simp_all add: example_codec_defs nat_to_string.simps [of 5] nat_to_string.simps [of 3])
  from r e show ?thesis by blast
qed

text \<open>
  Claim C1, as amended. \<^verbatim>\<open>decode_pixel\<close> does not compare the offset with anything: when
  the type name parses and the buffer is available (decompressed, if compressed), the call
  returns what \<^verbatim>\<open>get_pixel_value\<close> reads at the offset of \<open>(pixel_x, pixel_y)\<close>, whatever
  the coordinates are; and an exception of the call does not depend on the coordinates
  or the width.
\<close>

theorem decode_pixel_unchecked:
  "(parse_dt dtype_str = Inr dtype \<and> band_buffer z band_data band_size compressed = Inr data \<longrightarrow>
      decode_pixel parse_dt get_px z band_data band_size dtype_str pixel_x pixel_y width compressed
        = Inr (get_px data (pixel_offset pixel_x pixel_y width) dtype)) \<and>
   (decode_pixel parse_dt get_px z band_data band_size dtype_str pixel_x pixel_y width compressed
        = Inl ex \<longrightarrow>
      decode_pixel parse_dt get_px z band_data band_size dtype_str x' y' width' compressed = Inl ex)"
  by (auto simp: decode_pixel_def and_then_def split: sum.splits)

theorem decode_pixel_unchecked_witness:
  "parse_dtype ''uint8'' = Inr UINT8 \<and>
   band_buffer example_zlib (Ptr [7, 8, 9]) 3 False = Inr (Ptr [7, 8, 9]) \<and>
   decode_pixel parse_dtype get_pixel_value example_zlib (Ptr [7, 8, 9]) 3 ''uint8'' 5 0 1 False
     = Inr None \<and>
   decode_pixel parse_dtype get_pixel_value example_zlib (Ptr [7, 8, 9]) 3 ''uint9'' 0 0 1 False
     = Inl (InvalidArgument ''Unknown dtype: uint9'') \<and>
   decode_pixel parse_dtype get_pixel_value example_zlib (Ptr [7, 8, 9]) 3 ''uint9'' 5 (- 2) 1 False
     = Inl (InvalidArgument ''Unknown dtype: uint9'')"
  using decode_pixel_unchecked [of parse_dtype "''uint8''" UINT8 example_zlib "Ptr [7, 8, 9]" 3 False
      "Ptr [7, 8, 9]" get_pixel_value 5 0 1]
    decode_pixel_unchecked [of parse_dtype "''uint9''" _ example_zlib "Ptr [7, 8, 9]" 3 False
      _ get_pixel_value 0 0 1 "InvalidArgument ''Unknown dtype: uint9''" 5 "- 2" 1]
  by (simp add: parse_dtype_def band_buffer_def pixel_offset_def decode_pixel_def and_then_def)

text \<open>
  The claim as stated fails: on a grid of width 2 stored in 4 bytes, the column 3 of row 0
  is out of range, and the call returns the value of the pixel in column 1 of row 1.
\<close>

theorem decode_pixel_counterexample:
  "decode_pixel parse_dtype get_pixel_value example_zlib (Ptr [1, 2, 3, 4]) 4 ''uint8'' 3 0 2 False
     = Inr (Some (Fin 4))"
  by (simp add: decode_pixel_def and_then_def parse_dtype_def band_buffer_def pixel_offset_def
      Let_def le_value_def)

section \<open>Properties of the streaming statistics\<close>

text \<open>
  Visiting the samples with the filter gives the aggregates of the samples that pass the
  filter, and the count of an aggregate is the number of samples included.
\<close>

lemma foldl_visit_sample:
  "foldl (visit_sample has_nd nd) acc vs =
     foldl include_sample acc (filter (\<lambda>v. \<not> is_nodata has_nd nd v) vs)"
  by (induction vs arbitrary: acc) (simp_all add: visit_sample_def)

lemma r_count_include_sample: "r_count (include_sample acc v) = r_count acc + 1"
  by (simp add: include_sample_def Let_def)

lemma r_count_foldl_include:
  "r_count (foldl include_sample acc vs) = r_count acc + int (length vs)"
  by (induction vs arbitrary: acc) (simp_all add: r_count_include_sample)

lemma stat_count_aggregate: "stat_count (aggregate vs) = int (length vs)"
  by (simp add: aggregate_def finish_stats_def r_count_foldl_include running_init_def)

text \<open>
  Claim C3, on the statistics as modelled from the specification. With nodata filtering
  enabled, whenever the type parses and the buffer is available: if the nodata value is
  not-a-number, the statistics are the aggregates of exactly the samples that are not
  not-a-number; if it is a number (or an infinity), they are the aggregates of exactly
  the samples that do not compare equal to it under \<^verbatim>\<open>==\<close>. The count of the aggregates
  of a list is the length of the list.
\<close>

theorem nodata_filter_exact:
  "(parse_dt dtype_str = Inr dtype \<and> band_buffer z band_data band_size compressed = Inr data
      \<and> isnan nd \<longrightarrow>
      compute_band_stats parse_dt read_value z band_data band_size dtype_str width height
          compressed True nd
        = Inr (aggregate (filter (\<lambda>v. \<not> isnan v)
                 (band_samples read_value data dtype width height)))) \<and>
   (parse_dt dtype_str = Inr dtype \<and> band_buffer z band_data band_size compressed = Inr data
      \<and> \<not> isnan nd \<longrightarrow>
      compute_band_stats parse_dt read_value z band_data band_size dtype_str width height
          compressed True nd
        = Inr (aggregate (filter (\<lambda>v. \<not> feq v nd)
                 (band_samples read_value data dtype width height)))) \<and>
   stat_count (aggregate vs) = int (length vs)"
  by (simp add: compute_band_stats_def and_then_def foldl_visit_sample is_nodata_def
      aggregate_def [symmetric] stat_count_aggregate)

text \<open>
  Two bands for the examples: three 32-bit floating point samples (a not-a-number, 1, and
  a not-a-number with the sign bit set), and four bytes 1, 2, 3, 2.
\<close>

lemma example_samples_float32:
  "band_samples example_reader (Ptr [0, 0, 0xC0, 0x7F, 0, 0, 0x80, 0x3F, 0, 0, 0xC0, 0xFF])
     FLOAT32 3 1 = [NaN, Fin 1, NaN]"
  by (simp add: band_samples_def example_reader_def upt_conv_Cons Let_def le_value_def
      ieee_value_def pow2_def)

lemma example_samples_uint8:
  "band_samples example_reader (Ptr [1, 2, 3, 2]) UINT8 2 2 = [Fin 1, Fin 2, Fin 3, Fin 2]"
  by (simp add: band_samples_def example_reader_def upt_conv_Cons Let_def le_value_def)

theorem nodata_filter_exact_witness:
  "compute_band_stats parse_dtype example_reader example_zlib
       (Ptr [0, 0, 0xC0, 0x7F, 0, 0, 0x80, 0x3F, 0, 0, 0xC0, 0xFF]) 12 ''float32'' 3 1
       False True NaN
     = Inr \<lparr> stat_count = 1, stat_sum = Fin 1, stat_mean = Fin 1, stat_min = Fin 1,
             stat_max = Fin 1, stat_stddev = Fin 0 \<rparr> \<and>
   compute_band_stats parse_dtype example_reader example_zlib
       (Ptr [1, 2, 3, 2]) 4 ''uint8'' 2 2 False True (Fin 2)
     = Inr \<lparr> stat_count = 2, stat_sum = Fin 4, stat_mean = Fin 2, stat_min = Fin 1,
             stat_max = Fin 3, stat_stddev = Fin 1 \<rparr>"
proof -
  let ?f = "Ptr [0, 0, 0xC0, 0x7F, 0, 0, 0x80, 0x3F, 0, 0, 0xC0, 0xFF]"
  let ?u = "Ptr [1, 2, 3, 2]"
  have "parse_dtype ''float32'' = Inr FLOAT32 \<and>
      band_buffer example_zlib ?f 12 False = Inr ?f \<and> isnan NaN"
    by (simp add: parse_dtype_def band_buffer_def isnan_def)
  with nodata_filter_exact [where parse_dt = parse_dtype and dtype_str = "''float32''"
      and dtype = FLOAT32 and z = example_zlib and band_data = ?f and band_size = 12
      and compressed = False and data = ?f and nd = NaN and read_value = example_reader
      and width = 3 and height = 1]
  have a: "compute_band_stats parse_dtype example_reader example_zlib ?f 12 ''float32'' 3 1
       False True NaN
     = Inr (aggregate (filter (\<lambda>v. \<not> isnan v) (band_samples example_reader ?f FLOAT32 3 1)))"
    by blast
  have "parse_dtype ''uint8'' = Inr UINT8 \<and>
      band_buffer example_zlib ?u 4 False = Inr ?u \<and> \<not> isnan (Fin 2)"
    by (simp add: parse_dtype_def band_buffer_def isnan_def)
  with nodata_filter_exact [where parse_dt = parse_dtype and dtype_str = "''uint8''"
      and dtype = UINT8 and z = example_zlib and band_data = ?u and band_size = 4
      and compressed = False and data = ?u and nd = "Fin 2" and read_value = example_reader
      and width = 2 and height = 2]
  have b: "compute_band_stats parse_dtype example_reader example_zlib ?u 4 ''uint8'' 2 2
       False True (Fin 2)
     = Inr (aggregate (filter (\<lambda>v. \<not> feq v (Fin 2)) (band_samples example_reader ?u UINT8 2 2)))"
    by blast
  show ?thesis
    unfolding a b example_samples_float32 example_samples_uint8
    by (simp add: isnan_def feq_def aggregate_def finish_stats_def include_sample_def
        running_init_def fsub_def Let_def)
qed


section \<open>Properties of the row-wise adapter\<close>

text \<open>
  The body of each loop returns a row result for every row: the checks before the
  \<^verbatim>\<open>try\<close> block do not throw and the \<^verbatim>\<open>catch\<close> clause takes every exception.
\<close>

lemma for_each_row_total:
  assumes "\<And>r. \<exists>v. body r = Inr v"
  shows "\<exists>rs. for_each_row body rows = Inr rs \<and> length rs = length rows \<and>
           (\<forall>i<length rows. body (rows ! i) = Inr (rs ! i))"
proof (induction rows)
  case Nil
  then show ?case by simp
next
  case (Cons r rows)
  obtain v where v: "body r = Inr v" using assms by blast
  from Cons.IH obtain rs where rs: "for_each_row body rows = Inr rs" "length rs = length rows"
    "\<forall>i<length rows. body (rows ! i) = Inr (rs ! i)" by blast
  have "for_each_row body (r # rows) = Inr (v # rs)"
    by (simp add: v rs(1))
  moreover have "\<forall>i<length (r # rows). body ((r # rows) ! i) = Inr ((v # rs) ! i)"
    using v rs(3) by (auto simp: nth_Cons split: nat.splits)
  ultimately show ?case using rs(2) by auto
qed

lemma catch_to_null_total: "\<exists>v. catch_to_null r = Inr v"
  by (cases r) (simp_all add: catch_to_null_def)

lemma catch_to_null_Inl [simp]: "catch_to_null (Inl ex) = Inr None"
  by (simp add: catch_to_null_def)

lemma stats_row_total: "\<exists>v. STRasterSummaryStats_row cbs r = Inr v"
  using catch_to_null_total
  by (auto simp: STRasterSummaryStats_row_def split: prod.splits option.splits)

lemma stats_simple_row_total: "\<exists>v. STRasterSummaryStatsSimple_row cbs r = Inr v"
  using catch_to_null_total
  by (auto simp: STRasterSummaryStatsSimple_row_def split: prod.splits option.splits)

lemma stats_metadata_row_total: "\<exists>v. STRasterSummaryStatsMetadata_row cbs bi r = Inr v"
  using catch_to_null_total
  by (auto simp: STRasterSummaryStatsMetadata_row_def split: prod.splits option.splits)

lemma stats_metadata_band_row_total: "\<exists>v. STRasterSummaryStatsMetadataBand_row cbs bi r = Inr v"
  using catch_to_null_total
  by (auto simp: STRasterSummaryStatsMetadataBand_row_def split: prod.splits option.splits)

text \<open>
  Each of the four functions returns one result per row, and the result of a row is that
  of the loop body on this row alone.
\<close>

lemma stats_function_rowwise:
  "\<exists>rs. STRasterSummaryStatsFunction cbs args = Inr rs \<and> length rs = length args \<and>
     (\<forall>i<length args. STRasterSummaryStats_row cbs (args ! i) = Inr (rs ! i))"
  unfolding STRasterSummaryStatsFunction_def
  by (rule for_each_row_total) (rule stats_row_total)

lemma stats_simple_function_rowwise:
  "\<exists>rs. STRasterSummaryStatsSimpleFunction cbs args = Inr rs \<and> length rs = length args \<and>
     (\<forall>i<length args. STRasterSummaryStatsSimple_row cbs (args ! i) = Inr (rs ! i))"
  unfolding STRasterSummaryStatsSimpleFunction_def
  by (rule for_each_row_total) (rule stats_simple_row_total)

lemma stats_metadata_function_rowwise:
  "\<exists>rs. STRasterSummaryStatsMetadataFunction cbs bi args = Inr rs \<and> length rs = length args \<and>
     (\<forall>i<length args. STRasterSummaryStatsMetadata_row cbs bi (args ! i) = Inr (rs ! i))"
  unfolding STRasterSummaryStatsMetadataFunction_def
  by (rule for_each_row_total) (rule stats_metadata_row_total)

lemma stats_metadata_band_function_rowwise:
  "\<exists>rs. STRasterSummaryStatsMetadataBandFunction cbs bi args = Inr rs \<and>
     length rs = length args \<and>
     (\<forall>i<length args. STRasterSummaryStatsMetadataBand_row cbs bi (args ! i) = Inr (rs ! i))"
  unfolding STRasterSummaryStatsMetadataBandFunction_def
  by (rule for_each_row_total) (rule stats_metadata_band_row_total)

lemma stats_row_null:
  "STRasterSummaryStats_row cbs (None, dtype, width, height, compr, nv, nd) = Inr None"
  "STRasterSummaryStats_row cbs (Some [], dtype, width, height, compr, nv, nd) = Inr None"
  "STRasterSummaryStats_try cbs band dtype width height compr nv nd = Inl ex \<Longrightarrow>
     STRasterSummaryStats_row cbs (Some band, dtype, width, height, compr, nv, nd) = Inr None"
  by (simp_all add: STRasterSummaryStats_row_def)

lemma stats_simple_row_null:
  "STRasterSummaryStatsSimple_row cbs (None, dtype, width, height, compr) = Inr None"
  "STRasterSummaryStatsSimple_row cbs (Some [], dtype, width, height, compr) = Inr None"
  "STRasterSummaryStatsSimple_try cbs band dtype width height compr = Inl ex \<Longrightarrow>
     STRasterSummaryStatsSimple_row cbs (Some band, dtype, width, height, compr) = Inr None"
  by (simp_all add: STRasterSummaryStatsSimple_row_def)

lemma stats_metadata_row_null:
  "STRasterSummaryStatsMetadata_row cbs bi (None, metadata) = Inr None"
  "STRasterSummaryStatsMetadata_row cbs bi (Some [], metadata) = Inr None"
  "STRasterSummaryStatsMetadata_try cbs bi band metadata = Inl ex \<Longrightarrow>
     STRasterSummaryStatsMetadata_row cbs bi (Some band, metadata) = Inr None"
  by (simp_all add: STRasterSummaryStatsMetadata_row_def)

lemma stats_metadata_band_row_null:
  "STRasterSummaryStatsMetadataBand_row cbs bi (None, metadata, band_idx) = Inr None"
  "STRasterSummaryStatsMetadataBand_row cbs bi (Some [], metadata, band_idx) = Inr None"
  "STRasterSummaryStatsMetadataBand_try cbs bi band metadata band_idx = Inl ex \<Longrightarrow>
     STRasterSummaryStatsMetadataBand_row cbs bi (Some band, metadata, band_idx) = Inr None"
  by (simp_all add: STRasterSummaryStatsMetadataBand_row_def)

text \<open>
  Claim C4. For each of the four functions and every chunk: the function returns
  normally with one result per row, each the result of its own row; a row whose band is
  NULL, a row whose band is empty, and a row whose \<^verbatim>\<open>try\<close> block throws (in
  \<^verbatim>\<open>parse_metadata\<close>, in \<^verbatim>\<open>get_band_type\<close> or in \<^verbatim>\<open>compute_band_stats\<close>) has the NULL
  result.
\<close>

theorem rows_null_never_abort:
  "(\<exists>rs. STRasterSummaryStatsFunction cbs args6 = Inr rs \<and> length rs = length args6 \<and>
      (\<forall>i<length args6. STRasterSummaryStats_row cbs (args6 ! i) = Inr (rs ! i))) \<and>
   STRasterSummaryStats_row cbs (None, dtype, width, height, compr, nv, nd) = Inr None \<and>
   STRasterSummaryStats_row cbs (Some [], dtype, width, height, compr, nv, nd) = Inr None \<and>
   (STRasterSummaryStats_try cbs band dtype width height compr nv nd = Inl ex \<longrightarrow>
      STRasterSummaryStats_row cbs (Some band, dtype, width, height, compr, nv, nd) = Inr None) \<and>
   (\<exists>rs. STRasterSummaryStatsSimpleFunction cbs args5 = Inr rs \<and> length rs = length args5 \<and>
      (\<forall>i<length args5. STRasterSummaryStatsSimple_row cbs (args5 ! i) = Inr (rs ! i))) \<and>
   STRasterSummaryStatsSimple_row cbs (None, dtype, width, height, compr) = Inr None \<and>
   STRasterSummaryStatsSimple_row cbs (Some [], dtype, width, height, compr) = Inr None \<and>
   (STRasterSummaryStatsSimple_try cbs band dtype width height compr = Inl ex \<longrightarrow>
      STRasterSummaryStatsSimple_row cbs (Some band, dtype, width, height, compr) = Inr None) \<and>
   (\<exists>rs. STRasterSummaryStatsMetadataFunction cbs bi args2 = Inr rs \<and>
      length rs = length args2 \<and>
      (\<forall>i<length args2. STRasterSummaryStatsMetadata_row cbs bi (args2 ! i) = Inr (rs ! i))) \<and>
   STRasterSummaryStatsMetadata_row cbs bi (None, metadata) = Inr None \<and>
   STRasterSummaryStatsMetadata_row cbs bi (Some [], metadata) = Inr None \<and>
   (STRasterSummaryStatsMetadata_try cbs bi band metadata = Inl ex \<longrightarrow>
      STRasterSummaryStatsMetadata_row cbs bi (Some band, metadata) = Inr None) \<and>
   (\<exists>rs. STRasterSummaryStatsMetadataBandFunction cbs bi args3 = Inr rs \<and>
      length rs = length args3 \<and>
      (\<forall>i<length args3.
         STRasterSummaryStatsMetadataBand_row cbs bi (args3 ! i) = Inr (rs ! i))) \<and>
   STRasterSummaryStatsMetadataBand_row cbs bi (None, metadata, band_idx) = Inr None \<and>
   STRasterSummaryStatsMetadataBand_row cbs bi (Some [], metadata, band_idx) = Inr None \<and>
   (STRasterSummaryStatsMetadataBand_try cbs bi band metadata band_idx = Inl ex \<longrightarrow>
      STRasterSummaryStatsMetadataBand_row cbs bi (Some band, metadata, band_idx) = Inr None)"
  by (intro conjI impI stats_function_rowwise stats_simple_function_rowwise
      stats_metadata_function_rowwise stats_metadata_band_function_rowwise
      stats_row_null(1,2) stats_simple_row_null(1,2) stats_metadata_row_null(1,2)
      stats_metadata_band_row_null(1,2))
    (erule stats_row_null(3) stats_simple_row_null(3) stats_metadata_row_null(3)
      stats_metadata_band_row_null(3))+

text \<open>
  The statistics of the examples: the band of 2 by 2 bytes 1, 2, 3, 4, and a type name the
  registry does not know.
\<close>

lemma example_stats_2x2:
  "example_stats (Ptr [1, 2, 3, 4]) n ''uint8'' 2 2 False False nd =
     Inr \<lparr> stat_count = 4, stat_sum = Fin 10, stat_mean = Fin (5 / 2), stat_min = Fin 1,
           stat_max = Fin 4, stat_stddev = Fin (sqrt (5 / 4)) \<rparr>"
  by (simp add: example_stats_def compute_band_stats_def and_then_def parse_dtype_def
      band_buffer_def band_samples_def example_reader_def Let_def le_value_def upt_conv_Cons
      visit_sample_def is_nodata_def include_sample_def running_init_def finish_stats_def
      fsub_def)

lemma example_stats_unknown_type:
  "example_stats data n ''uint9'' w h c hn nd =
     Inl (InvalidArgument ''Unknown dtype: uint9'')"
  by (simp add: example_stats_def compute_band_stats_def and_then_def parse_dtype_def)

theorem rows_null_never_abort_witness:
  \<open>STRasterSummaryStatsFunction example_stats
     [(None, ''uint8'', 2, 2, ''none'', False, Fin 0),
      (Some [], ''uint8'', 2, 2, ''none'', False, Fin 0),
      (Some [1, 2, 3, 4], ''uint9'', 2, 2, ''none'', False, Fin 0),
      (Some [1, 2, 3, 4], ''uint8'', 2, 2, ''none'', False, Fin 0)]
     = Inr [None, None, None,
            Some \<lparr> stat_count = 4, stat_sum = Fin 10, stat_mean = Fin (5 / 2),
                   stat_min = Fin 1, stat_max = Fin 4, stat_stddev = Fin (sqrt (5 / 4)) \<rparr>] \<and>
   STRasterSummaryStatsSimpleFunction example_stats
     [(None, ''uint8'', 2, 2, ''none''),
      (Some [], ''uint8'', 2, 2, ''none''),
      (Some [1, 2, 3, 4], ''uint9'', 2, 2, ''none''),
      (Some [1, 2, 3, 4], ''uint8'', 2, 2, ''none'')]
     = Inr [None, None, None,
            Some \<lparr> stat_count = 4, stat_sum = Fin 10, stat_mean = Fin (5 / 2),
                   stat_min = Fin 1, stat_max = Fin 4, stat_stddev = Fin (sqrt (5 / 4)) \<rparr>] \<and>
   STRasterSummaryStatsMetadataFunction example_stats no_band_info
     [(None, ''{"tiling":{"block_width":2,"block_height":2},"bands":[{"name":"a","type":"uint8"}]}''),
      (Some [], ''{"tiling":{"block_width":2,"block_height":2},"bands":[{"name":"a","type":"uint8"}]}''),
      (Some [1, 2, 3, 4], ''{"tiling":{"block_width":2,"block_height":2},"bands":[{"name":"a","type":"uint9"}]}''),
      (Some [1, 2, 3, 4], ''{"tiling":{"block_width":2,"block_height":2},"bands":[{"name":"a","type":"uint8"}]}'')]
     = Inr [None, None, None,
            Some \<lparr> stat_count = 4, stat_sum = Fin 10, stat_mean = Fin (5 / 2),
                   stat_min = Fin 1, stat_max = Fin 4, stat_stddev = Fin (sqrt (5 / 4)) \<rparr>] \<and>
   STRasterSummaryStatsMetadataBandFunction example_stats no_band_info
     [(None, ''{"tiling":{"block_width":2,"block_height":2},"bands":[{"name":"a","type":"uint8"}]}'', 0),
      (Some [], ''{"tiling":{"block_width":2,"block_height":2},"bands":[{"name":"a","type":"uint8"}]}'', 0),
      (Some [1, 2, 3, 4], ''{"tiling":{"block_width":2,"block_height":2},"bands":[{"name":"a","type":"uint8"}]}'', 1),
      (Some [1, 2, 3, 4], ''{"tiling":{"block_width":2,"block_height":2},"bands":[{"name":"a","type":"uint8"}]}'', 0)]
     = Inr [None, None, None,
            Some \<lparr> stat_count = 4, stat_sum = Fin 10, stat_mean = Fin (5 / 2),
                   stat_min = Fin 1, stat_max = Fin 4, stat_stddev = Fin (sqrt (5 / 4)) \<rparr>]\<close>
proof -
  have p8: \<open>parse_metadata
      ''{"tiling":{"block_width":2,"block_height":2},"bands":[{"name":"a","type":"uint8"}]}''
     = Inr \<lparr> compression = ''none'', block_width = 2, block_height = 2,
        min_zoom = 0, max_zoom = 26, pixel_zoom = 0, num_blocks = 0,
        scheme = [], crs = [], bands = [(''a'', ''uint8'')] \<rparr>\<close>
    by code_simp
  have p9: \<open>parse_metadata
      ''{"tiling":{"block_width":2,"block_height":2},"bands":[{"name":"a","type":"uint9"}]}''
     = Inr \<lparr> compression = ''none'', block_width = 2, block_height = 2,
        min_zoom = 0, max_zoom = 26, pixel_zoom = 0, num_blocks = 0,
        scheme = [], crs = [], bands = [(''a'', ''uint9'')] \<rparr>\<close>
    by code_simp
  note r = rows_null_never_abort [where cbs = example_stats and bi = no_band_info]
  have e:
    "STRasterSummaryStats_try example_stats [1, 2, 3, 4] ''uint9'' 2 2 ''none'' False (Fin 0)
       = Inl (InvalidArgument ''Unknown dtype: uint9'')"
    "STRasterSummaryStats_try example_stats [1, 2, 3, 4] ''uint8'' 2 2 ''none'' False (Fin 0)
       = Inr \<lparr> stat_count = 4, stat_sum = Fin 10, stat_mean = Fin (5 / 2),
                   stat_min = Fin 1, stat_max = Fin 4, stat_stddev = Fin (sqrt (5 / 4)) \<rparr>"
    "STRasterSummaryStatsSimple_try example_stats [1, 2, 3, 4] ''uint9'' 2 2 ''none''
       = Inl (InvalidArgument ''Unknown dtype: uint9'')"
    "STRasterSummaryStatsSimple_try example_stats [1, 2, 3, 4] ''uint8'' 2 2 ''none''
       = Inr \<lparr> stat_count = 4, stat_sum = Fin 10, stat_mean = Fin (5 / 2),
                   stat_min = Fin 1, stat_max = Fin 4, stat_stddev = Fin (sqrt (5 / 4)) \<rparr>"
    by (simp_all add: STRasterSummaryStats_try_def STRasterSummaryStatsSimple_try_def
        example_stats_2x2 example_stats_unknown_type)
  have m:
    \<open>STRasterSummaryStatsMetadata_try example_stats no_band_info [1, 2, 3, 4]
       ''{"tiling":{"block_width":2,"block_height":2},"bands":[{"name":"a","type":"uint9"}]}''
       = Inl (InvalidArgument ''Unknown dtype: uint9'')\<close>
    \<open>STRasterSummaryStatsMetadata_try example_stats no_band_info [1, 2, 3, 4]
       ''{"tiling":{"block_width":2,"block_height":2},"bands":[{"name":"a","type":"uint8"}]}''
       = Inr \<lparr> stat_count = 4, stat_sum = Fin 10, stat_mean = Fin (5 / 2),
                   stat_min = Fin 1, stat_max = Fin 4, stat_stddev = Fin (sqrt (5 / 4)) \<rparr>\<close>
    \<open>STRasterSummaryStatsMetadataBand_try example_stats no_band_info [1, 2, 3, 4]
       ''{"tiling":{"block_width":2,"block_height":2},"bands":[{"name":"a","type":"uint8"}]}'' 1
       = Inl (InvalidArgument ''Band index out of range'')\<close>
    \<open>STRasterSummaryStatsMetadataBand_try example_stats no_band_info [1, 2, 3, 4]
       ''{"tiling":{"block_width":2,"block_height":2},"bands":[{"name":"a","type":"uint8"}]}'' 0
       = Inr \<lparr> stat_count = 4, stat_sum = Fin 10, stat_mean = Fin (5 / 2),
                   stat_min = Fin 1, stat_max = Fin 4, stat_stddev = Fin (sqrt (5 / 4)) \<rparr>\<close>
    by (simp_all add: STRasterSummaryStatsMetadata_try_def
        STRasterSummaryStatsMetadataBand_try_def p8 p9 and_then_def get_band_type_def
        no_band_info_def example_stats_2x2 example_stats_unknown_type)
  have rows:
    "STRasterSummaryStats_row example_stats
       (Some [1, 2, 3, 4], ''uint9'', 2, 2, ''none'', False, Fin 0) = Inr None"
    "STRasterSummaryStatsSimple_row example_stats
       (Some [1, 2, 3, 4], ''uint9'', 2, 2, ''none'') = Inr None"
    \<open>STRasterSummaryStatsMetadata_row example_stats no_band_info (Some [1, 2, 3, 4],
       ''{"tiling":{"block_width":2,"block_height":2},"bands":[{"name":"a","type":"uint9"}]}'')
       = Inr None\<close>
    \<open>STRasterSummaryStatsMetadataBand_row example_stats no_band_info (Some [1, 2, 3, 4],
       ''{"tiling":{"block_width":2,"block_height":2},"bands":[{"name":"a","type":"uint8"}]}'', 1)
       = Inr None\<close>
    using r e(1,3) m(1,3) by blast+
  show ?thesis
    using r
    by (simp add: rows e m STRasterSummaryStatsFunction_def STRasterSummaryStatsSimpleFunction_def
        STRasterSummaryStatsMetadataFunction_def STRasterSummaryStatsMetadataBandFunction_def
        STRasterSummaryStats_row_def STRasterSummaryStatsSimple_row_def
        STRasterSummaryStatsMetadata_row_def STRasterSummaryStatsMetadataBand_row_def
        catch_to_null_def)
qed


text \<open>
  Claim C2, as amended. In the function of three arguments, \<^verbatim>\<open>get_band_type\<close> throws
  \<^verbatim>\<open>std::invalid_argument\<close> for an index that is not below the number of bands, but the
  call stands inside the \<^verbatim>\<open>try\<close> block: the row is set to NULL and the function
  returns normally. A negative index or an empty band also gives a NULL row.
\<close>

theorem band_index_out_of_range_null_row:
  "(parse_metadata metadata = Inr meta \<and> int (length (bands meta)) \<le> band_idx \<longrightarrow>
      get_band_type meta band_idx = Inl (InvalidArgument ''Band index out of range'') \<and>
      STRasterSummaryStatsMetadataBand_row cbs bi (Some band, metadata, band_idx) = Inr None \<and>
      STRasterSummaryStatsMetadataBandFunction cbs bi [(Some band, metadata, band_idx)]
        = Inr [None]) \<and>
   (band_idx < 0 \<or> band = [] \<longrightarrow>
      STRasterSummaryStatsMetadataBand_row cbs bi (Some band, metadata, band_idx) = Inr None \<and>
      STRasterSummaryStatsMetadataBandFunction cbs bi [(Some band, metadata, band_idx)]
        = Inr [None])"
  by (auto simp: STRasterSummaryStatsMetadataBandFunction_def
      STRasterSummaryStatsMetadataBand_row_def STRasterSummaryStatsMetadataBand_try_def
      get_band_type_def and_then_def)

theorem band_index_out_of_range_null_row_witness:
  \<open>STRasterSummaryStatsMetadataBand_row example_stats no_band_info
      (Some [1, 2, 3, 4], ''{"bands":[{"name":"a","type":"uint8"}]}'', 5) = Inr None \<and>
   STRasterSummaryStatsMetadataBand_row example_stats no_band_info
      (Some [1, 2, 3, 4], ''{"bands":[{"name":"a","type":"uint8"}]}'', - 1) = Inr None \<and>
   STRasterSummaryStatsMetadataBand_row example_stats no_band_info
      (Some [], ''{"bands":[{"name":"a","type":"uint8"}]}'', 0) = Inr None\<close>
proof -
  let ?md = \<open>''{"bands":[{"name":"a","type":"uint8"}]}''\<close>
  let ?meta = "\<lparr> compression = ''none'', block_width = 256, block_height = 256,
        min_zoom = 0, max_zoom = 26, pixel_zoom = 0, num_blocks = 0,
        scheme = ''quadbin'', crs = [], bands = [(''a'', ''uint8'')] \<rparr>"
  have p: "parse_metadata ?md = Inr ?meta"
    by code_simp
  have "parse_metadata ?md = Inr ?meta \<and> int (length (bands ?meta)) \<le> 5"
    using p by simp
  with band_index_out_of_range_null_row
    [where metadata = ?md and meta = ?meta and band_idx = 5 and cbs = example_stats
       and bi = no_band_info and band = "[1, 2, 3, 4]"]
  have a: "STRasterSummaryStatsMetadataBand_row example_stats no_band_info
      (Some [1, 2, 3, 4], ?md, 5) = Inr None"
    by blast
  have "(- 1 :: int) < 0 \<or> [1, 2, 3, 4 :: byte] = []"
    by simp
  with band_index_out_of_range_null_row
    [where metadata = ?md and band_idx = "- 1" and cbs = example_stats
       and bi = no_band_info and band = "[1, 2, 3, 4]"]
  have b: "STRasterSummaryStatsMetadataBand_row example_stats no_band_info
      (Some [1, 2, 3, 4], ?md, - 1) = Inr None"
    by blast
  have "(0 :: int) < 0 \<or> ([] :: byte list) = []"
    by simp
  with band_index_out_of_range_null_row
    [where metadata = ?md and band_idx = 0 and cbs = example_stats
       and bi = no_band_info and band = "[]"]
  have c: "STRasterSummaryStatsMetadataBand_row example_stats no_band_info
      (Some [], ?md, 0) = Inr None"
    by blast
  from a b c show ?thesis by blast
qed

text \<open>
  The claim as stated fails: the metadata declares one band, the index is 1, the lookup of
  the band type throws, and the function returns a chunk whose one row is NULL; no
  error reaches the caller.
\<close>

theorem band_index_out_of_range_counterexample:
  \<open>get_band_type
      \<lparr> compression = ''none'', block_width = 256, block_height = 256,
        min_zoom = 0, max_zoom = 26, pixel_zoom = 0, num_blocks = 0,
        scheme = ''quadbin'', crs = [], bands = [(''a'', ''uint8'')] \<rparr> 1
     = Inl (InvalidArgument ''Band index out of range'') \<and>
   parse_metadata ''{"bands":[{"name":"a","type":"uint8"}]}''
     = Inr \<lparr> compression = ''none'', block_width = 256, block_height = 256,
        min_zoom = 0, max_zoom = 26, pixel_zoom = 0, num_blocks = 0,
        scheme = ''quadbin'', crs = [], bands = [(''a'', ''uint8'')] \<rparr> \<and>
   STRasterSummaryStatsMetadataBandFunction example_stats no_band_info
      [(Some [1, 2, 3, 4], ''{"bands":[{"name":"a","type":"uint8"}]}'', 1)]
     = Inr [None]\<close>
proof -
  have p: \<open>parse_metadata ''{"bands":[{"name":"a","type":"uint8"}]}''
     = Inr \<lparr> compression = ''none'', block_width = 256, block_height = 256,
        min_zoom = 0, max_zoom = 26, pixel_zoom = 0, num_blocks = 0,
        scheme = ''quadbin'', crs = [], bands = [(''a'', ''uint8'')] \<rparr>\<close>
    by code_simp
  show ?thesis
    by (simp add: p STRasterSummaryStatsMetadataBandFunction_def
      STRasterSummaryStatsMetadataBand_row_def STRasterSummaryStatsMetadataBand_try_def
      get_band_type_def and_then_def)
qed









end
